theory Spec2Isabelle
  imports Complex_Main "HOL-Library.Word" "HOL-Library.Monad_Syntax"
begin

unbundle bit_operations_syntax

section \<open>The OpenGL interface seen by renderer.cpp\<close>

text \<open>
  renderer.cpp talks to the GPU only through OpenGL entry points. The model keeps the
  sequence of commands the code issues (oldest first) and the few pieces of GL state the
  code reads back or that a property speaks about. Pointers and \<^verbatim>\<open>size_t\<close> values are
  words of the platform's pointer width, which stays a type parameter.
\<close>

type_synonym GLuint = nat
type_synonym byte = "8 word"
type_synonym Material_ptr = nat

datatype GLenum =
    GL_ARRAY_BUFFER | GL_ELEMENT_ARRAY_BUFFER | GL_STATIC_DRAW
  | GL_FLOAT | GL_UNSIGNED_BYTE | GL_UNSIGNED_INT
  | GL_TRIANGLES
  | GL_VERTEX_SHADER | GL_FRAGMENT_SHADER
  | GL_TEXTURE0 | GL_TEXTURE_2D | GL_TEXTURE_WRAP_S | GL_TEXTURE_WRAP_T | GL_REPEAT
  | GL_TEXTURE_MAG_FILTER | GL_TEXTURE_MIN_FILTER | GL_LINEAR | GL_LINEAR_MIPMAP_LINEAR
  | GL_RGBA | GL_ALPHA | GL_BLEND | GL_SRC_ALPHA | GL_ONE_MINUS_SRC_ALPHA
  | GL_DEPTH_TEST | GL_LEQUAL | GL_GREATER | GL_ALPHA_TEST

text \<open>
  One constructor per GL command that changes GPU state, with the arguments the code
  passes. \<open>GenBuffers\<close>, \<open>GenTextures\<close>, \<open>CreateShader\<close> and \<open>CreateProgram\<close> carry the
  name the driver handed out. \<open>MaterialSet\<close> stands for the call
  \<^verbatim>\<open>mat->Set(renderer)\<close> into the Material class, which lives outside renderer.cpp.
\<close>

datatype 'ptr gl_call =
    BindBuffer GLenum GLuint
  | EnableVertexAttribArray GLuint
  | VertexAttribPointer GLuint int GLenum bool int 'ptr
  | DisableVertexAttribArray GLuint
  | GenBuffers GLuint
  | BufferData GLenum 'ptr 'ptr GLenum
  | DeleteBuffers GLuint
  | DrawElements GLenum int GLenum 'ptr
  | MaterialSet Material_ptr
  | CreateShader GLenum GLuint
  | ShaderSource GLuint string
  | CompileShader_call GLuint
  | AttachShader GLuint GLuint
  | DeleteShader GLuint
  | CreateProgram GLuint
  | BindAttribLocation GLuint GLuint string
  | LinkProgram GLuint
  | UseProgram GLuint
  | DeleteProgram GLuint
  | Uniform1i int int
  | GenTextures GLuint
  | ActiveTexture GLenum
  | BindTexture GLenum GLuint
  | TexParameteri GLenum GLenum GLenum
  | TexImage2D GLenum int GLenum int int int GLenum GLenum "byte list"
  | Enable GLenum
  | BlendFunc GLenum GLenum
  | DepthFunc GLenum
  | AlphaFunc GLenum real
  | GenerateMipmap GLenum

text \<open>
  What the GL implementation decides: whether a shader of a given type and source text
  compiles and what it logs, whether a set of attached shaders links and what it logs,
  and where a linked program puts a uniform. A log of \<open>None\<close> is an object without
  information log.
\<close>

record driver =
  compiles :: "GLenum \<Rightarrow> string \<Rightarrow> bool"
  compile_log :: "GLenum \<Rightarrow> string \<Rightarrow> string option"
  links :: "(GLenum \<times> string) list \<Rightarrow> bool"
  link_log :: "(GLenum \<times> string) list \<Rightarrow> string option"
  uniform_location :: "(GLenum \<times> string) list \<Rightarrow> string \<Rightarrow> int"

record 'ptr gl_state =
  calls :: "'ptr gl_call list"
  names_issued :: nat
  attrib_enabled :: "GLuint set"
  shader_type :: "GLuint \<Rightarrow> GLenum"
  shader_source :: "GLuint \<Rightarrow> string"
  compile_status :: "GLuint \<Rightarrow> bool"
  shader_info_log :: "GLuint \<Rightarrow> string option"
  attached_shaders :: "GLuint \<Rightarrow> GLuint list"
  link_status :: "GLuint \<Rightarrow> bool"
  program_info_log :: "GLuint \<Rightarrow> string option"
  gl_driver :: driver

definition issue :: "'ptr gl_call \<Rightarrow> 'ptr gl_state \<Rightarrow> 'ptr gl_state" where
  "issue c g = g\<lparr>calls := calls g @ [c]\<rparr>"

text \<open>Object names are never 0 and never handed out twice.\<close>

definition fresh_name :: "'ptr gl_state \<Rightarrow> GLuint" where
  "fresh_name g = Suc (names_issued g)"

definition take_name :: "'ptr gl_state \<Rightarrow> 'ptr gl_state" where
  "take_name g = g\<lparr>names_issued := Suc (names_issued g)\<rparr>"

subsection \<open>Buffers, vertex attribute arrays, drawing\<close>

definition glBindBuffer :: "GLenum \<Rightarrow> GLuint \<Rightarrow> 'ptr gl_state \<Rightarrow> 'ptr gl_state" where
  "glBindBuffer target buffer g = issue (BindBuffer target buffer) g"

definition glEnableVertexAttribArray :: "GLuint \<Rightarrow> 'ptr gl_state \<Rightarrow> 'ptr gl_state" where
  "glEnableVertexAttribArray index g =
     issue (EnableVertexAttribArray index) (g\<lparr>attrib_enabled := insert index (attrib_enabled g)\<rparr>)"

definition glDisableVertexAttribArray :: "GLuint \<Rightarrow> 'ptr gl_state \<Rightarrow> 'ptr gl_state" where
  "glDisableVertexAttribArray index g =
     issue (DisableVertexAttribArray index) (g\<lparr>attrib_enabled := attrib_enabled g - {index}\<rparr>)"

definition glVertexAttribPointer ::
  "GLuint \<Rightarrow> int \<Rightarrow> GLenum \<Rightarrow> bool \<Rightarrow> int \<Rightarrow> 'ptr \<Rightarrow> 'ptr gl_state \<Rightarrow> 'ptr gl_state" where
  "glVertexAttribPointer index sz type normalized stride pointer g =
     issue (VertexAttribPointer index sz type normalized stride pointer) g"

definition glGenBuffers :: "'ptr gl_state \<Rightarrow> GLuint \<times> 'ptr gl_state" where
  "glGenBuffers g = (fresh_name g, issue (GenBuffers (fresh_name g)) (take_name g))"

definition glBufferData :: "GLenum \<Rightarrow> 'ptr \<Rightarrow> 'ptr \<Rightarrow> GLenum \<Rightarrow> 'ptr gl_state \<Rightarrow> 'ptr gl_state" where
  "glBufferData target sz data usage g = issue (BufferData target sz data usage) g"

definition glDeleteBuffers :: "GLuint \<Rightarrow> 'ptr gl_state \<Rightarrow> 'ptr gl_state" where
  "glDeleteBuffers buffer g = issue (DeleteBuffers buffer) g"

definition glDrawElements :: "GLenum \<Rightarrow> int \<Rightarrow> GLenum \<Rightarrow> 'ptr \<Rightarrow> 'ptr gl_state \<Rightarrow> 'ptr gl_state" where
  "glDrawElements mode cnt type indices g = issue (DrawElements mode cnt type indices) g"

subsection \<open>Shader and program objects\<close>

text \<open>
  Shaders and programs share one name space. Creating an object gives it an empty source,
  a false status and no information log. Compiling and linking ask the driver.
\<close>

definition glCreateShader :: "GLenum \<Rightarrow> 'ptr gl_state \<Rightarrow> GLuint \<times> 'ptr gl_state" where
  "glCreateShader type g =
     (fresh_name g,
      issue (CreateShader type (fresh_name g))
        ((take_name g)
           \<lparr>shader_type := (shader_type g)(fresh_name g := type),
            shader_source := (shader_source g)(fresh_name g := []),
            compile_status := (compile_status g)(fresh_name g := False),
            shader_info_log := (shader_info_log g)(fresh_name g := None)\<rparr>))"

definition glShaderSource :: "GLuint \<Rightarrow> string \<Rightarrow> 'ptr gl_state \<Rightarrow> 'ptr gl_state" where
  "glShaderSource shader src g =
     issue (ShaderSource shader src) (g\<lparr>shader_source := (shader_source g)(shader := src)\<rparr>)"

definition glCompileShader :: "GLuint \<Rightarrow> 'ptr gl_state \<Rightarrow> 'ptr gl_state" where
  "glCompileShader shader g =
     issue (CompileShader_call shader)
       (g\<lparr>compile_status := (compile_status g)
             (shader := compiles (gl_driver g) (shader_type g shader) (shader_source g shader)),
          shader_info_log := (shader_info_log g)
             (shader := compile_log (gl_driver g) (shader_type g shader) (shader_source g shader))\<rparr>)"

text \<open>\<^verbatim>\<open>glGetShaderiv(shader, GL_COMPILE_STATUS, &success)\<close>\<close>

definition glGetShaderiv_COMPILE_STATUS :: "GLuint \<Rightarrow> 'ptr gl_state \<Rightarrow> bool" where
  "glGetShaderiv_COMPILE_STATUS shader g = compile_status g shader"

text \<open>
  \<^verbatim>\<open>GL_INFO_LOG_LENGTH\<close> is the number of characters of the information log with its
  terminating null character, and 0 for an object without information log.
\<close>

definition info_log_length :: "string option \<Rightarrow> nat" where
  "info_log_length info = (case info of None \<Rightarrow> 0 | Some text \<Rightarrow> length text + 1)"

definition glGetShaderiv_INFO_LOG_LENGTH :: "GLuint \<Rightarrow> 'ptr gl_state \<Rightarrow> nat" where
  "glGetShaderiv_INFO_LOG_LENGTH shader g = info_log_length (shader_info_log g shader)"

text \<open>
  \<^verbatim>\<open>glGetShaderInfoLog(obj, maxLength, &length, infoLog)\<close> writes at most
  \<open>maxLength\<close> characters to the start of the caller's buffer, the terminating null
  character included, and nothing when \<open>maxLength\<close> is 0. The result is the buffer
  afterwards.
\<close>

definition NUL :: char where "NUL = CHR 0x00"

definition write_info_log :: "string option \<Rightarrow> nat \<Rightarrow> string \<Rightarrow> string" where
  "write_info_log info maxLength buf =
     (if maxLength = 0 then buf
      else (let text = take (maxLength - 1) (case info of None \<Rightarrow> [] | Some t \<Rightarrow> t)
            in text @ [NUL] @ drop (length text + 1) buf))"

definition glGetShaderInfoLog :: "GLuint \<Rightarrow> nat \<Rightarrow> string \<Rightarrow> 'ptr gl_state \<Rightarrow> string" where
  "glGetShaderInfoLog shader maxLength buf g = write_info_log (shader_info_log g shader) maxLength buf"

definition glAttachShader :: "GLuint \<Rightarrow> GLuint \<Rightarrow> 'ptr gl_state \<Rightarrow> 'ptr gl_state" where
  "glAttachShader program shader g =
     issue (AttachShader program shader)
       (g\<lparr>attached_shaders := (attached_shaders g)(program := attached_shaders g program @ [shader])\<rparr>)"

definition glDeleteShader :: "GLuint \<Rightarrow> 'ptr gl_state \<Rightarrow> 'ptr gl_state" where
  "glDeleteShader shader g = issue (DeleteShader shader) g"

definition glCreateProgram :: "'ptr gl_state \<Rightarrow> GLuint \<times> 'ptr gl_state" where
  "glCreateProgram g =
     (fresh_name g,
      issue (CreateProgram (fresh_name g))
        ((take_name g)
           \<lparr>attached_shaders := (attached_shaders g)(fresh_name g := []),
            link_status := (link_status g)(fresh_name g := False),
            program_info_log := (program_info_log g)(fresh_name g := None)\<rparr>))"

definition glBindAttribLocation :: "GLuint \<Rightarrow> GLuint \<Rightarrow> string \<Rightarrow> 'ptr gl_state \<Rightarrow> 'ptr gl_state" where
  "glBindAttribLocation program index name g = issue (BindAttribLocation program index name) g"

definition program_sources :: "'ptr gl_state \<Rightarrow> GLuint \<Rightarrow> (GLenum \<times> string) list" where
  "program_sources g program =
     map (\<lambda>shader. (shader_type g shader, shader_source g shader)) (attached_shaders g program)"

definition glLinkProgram :: "GLuint \<Rightarrow> 'ptr gl_state \<Rightarrow> 'ptr gl_state" where
  "glLinkProgram program g =
     issue (LinkProgram program)
       (g\<lparr>link_status := (link_status g)(program := links (gl_driver g) (program_sources g program)),
          program_info_log := (program_info_log g)
             (program := link_log (gl_driver g) (program_sources g program))\<rparr>)"

definition glGetProgramiv_LINK_STATUS :: "GLuint \<Rightarrow> 'ptr gl_state \<Rightarrow> bool" where
  "glGetProgramiv_LINK_STATUS program g = link_status g program"

definition glGetProgramiv_INFO_LOG_LENGTH :: "GLuint \<Rightarrow> 'ptr gl_state \<Rightarrow> nat" where
  "glGetProgramiv_INFO_LOG_LENGTH program g = info_log_length (program_info_log g program)"

definition glGetProgramInfoLog :: "GLuint \<Rightarrow> nat \<Rightarrow> string \<Rightarrow> 'ptr gl_state \<Rightarrow> string" where
  "glGetProgramInfoLog program maxLength buf g =
     write_info_log (program_info_log g program) maxLength buf"

definition glUseProgram :: "GLuint \<Rightarrow> 'ptr gl_state \<Rightarrow> 'ptr gl_state" where
  "glUseProgram program g = issue (UseProgram program) g"

definition glDeleteProgram :: "GLuint \<Rightarrow> 'ptr gl_state \<Rightarrow> 'ptr gl_state" where
  "glDeleteProgram program g = issue (DeleteProgram program) g"

definition glGetUniformLocation :: "GLuint \<Rightarrow> string \<Rightarrow> 'ptr gl_state \<Rightarrow> int" where
  "glGetUniformLocation program name g =
     uniform_location (gl_driver g) (program_sources g program) name"

definition glUniform1i :: "int \<Rightarrow> int \<Rightarrow> 'ptr gl_state \<Rightarrow> 'ptr gl_state" where
  "glUniform1i location v g = issue (Uniform1i location v) g"

subsection \<open>Textures and fixed-function state\<close>

definition glGenTextures :: "'ptr gl_state \<Rightarrow> GLuint \<times> 'ptr gl_state" where
  "glGenTextures g = (fresh_name g, issue (GenTextures (fresh_name g)) (take_name g))"

definition glActiveTexture :: "GLenum \<Rightarrow> 'ptr gl_state \<Rightarrow> 'ptr gl_state" where
  "glActiveTexture texture g = issue (ActiveTexture texture) g"

definition glBindTexture :: "GLenum \<Rightarrow> GLuint \<Rightarrow> 'ptr gl_state \<Rightarrow> 'ptr gl_state" where
  "glBindTexture target texture g = issue (BindTexture target texture) g"

definition glTexParameteri :: "GLenum \<Rightarrow> GLenum \<Rightarrow> GLenum \<Rightarrow> 'ptr gl_state \<Rightarrow> 'ptr gl_state" where
  "glTexParameteri target pname param g = issue (TexParameteri target pname param) g"

text \<open>The last argument is the content of the client buffer the GL reads the image from.\<close>

definition glTexImage2D ::
  "GLenum \<Rightarrow> int \<Rightarrow> GLenum \<Rightarrow> int \<Rightarrow> int \<Rightarrow> int \<Rightarrow> GLenum \<Rightarrow> GLenum \<Rightarrow> byte list
     \<Rightarrow> 'ptr gl_state \<Rightarrow> 'ptr gl_state" where
  "glTexImage2D target level internalformat w h border format type pixels g =
     issue (TexImage2D target level internalformat w h border format type pixels) g"

definition glEnable :: "GLenum \<Rightarrow> 'ptr gl_state \<Rightarrow> 'ptr gl_state" where
  "glEnable cap g = issue (Enable cap) g"

definition glBlendFunc :: "GLenum \<Rightarrow> GLenum \<Rightarrow> 'ptr gl_state \<Rightarrow> 'ptr gl_state" where
  "glBlendFunc sfactor dfactor g = issue (BlendFunc sfactor dfactor) g"

definition glDepthFunc :: "GLenum \<Rightarrow> 'ptr gl_state \<Rightarrow> 'ptr gl_state" where
  "glDepthFunc func g = issue (DepthFunc func) g"

definition glAlphaFunc :: "GLenum \<Rightarrow> real \<Rightarrow> 'ptr gl_state \<Rightarrow> 'ptr gl_state" where
  "glAlphaFunc func ref g = issue (AlphaFunc func ref) g"

definition glGenerateMipmap :: "GLenum \<Rightarrow> 'ptr gl_state \<Rightarrow> 'ptr gl_state" where
  "glGenerateMipmap target g = issue (GenerateMipmap target) g"

section \<open>Vertex attributes: Mesh::SetAttributes and Mesh::UnSetAttributes\<close>

text \<open>
  The enumeration \<^verbatim>\<open>Attribute\<close> is declared in renderer.h; its five values are the
  case labels of the two switches. The anonymous enum at the top of renderer.cpp numbers
  the attribute slots.
\<close>

datatype Attribute = kPosition3f | kNormal3f | kTexCoord2f | kColor4ub | kEND

definition kAttributePosition :: GLuint where "kAttributePosition = 0"
definition kAttributeNormal :: GLuint where "kAttributeNormal = 1"
definition kAttributeTexCoord :: GLuint where "kAttributeTexCoord = 2"
definition kAttributeColor :: GLuint where "kAttributeColor = 3"

definition sizeof_float :: "'p::len word" where "sizeof_float = 4"

text \<open>
  \<^verbatim>\<open>for (;;) { switch (*attributes++) { ... case kEND: return; } }\<close>
  The array behind \<^verbatim>\<open>attributes\<close> is the list; each round reads its head and moves on.
  Reading after the last element of the array leaves the array: the result is \<open>None\<close>.
  \<^verbatim>\<open>offset\<close> is a \<^verbatim>\<open>size_t\<close> and wraps.
\<close>

fun SetAttributes_loop ::
  "Attribute list \<Rightarrow> int \<Rightarrow> 'p::len word \<Rightarrow> 'p word \<Rightarrow> 'p word gl_state \<Rightarrow> 'p word gl_state option" where
  "SetAttributes_loop [] stride buffer offset g = None"
| "SetAttributes_loop (kPosition3f # attributes) stride buffer offset g =
     SetAttributes_loop attributes stride buffer (offset + 3 * sizeof_float)
       (glVertexAttribPointer kAttributePosition 3 GL_FLOAT False stride (buffer + offset)
         (glEnableVertexAttribArray kAttributePosition g))"
| "SetAttributes_loop (kNormal3f # attributes) stride buffer offset g =
     SetAttributes_loop attributes stride buffer (offset + 3 * sizeof_float)
       (glVertexAttribPointer kAttributeNormal 3 GL_FLOAT False stride (buffer + offset)
         (glEnableVertexAttribArray kAttributeNormal g))"
| "SetAttributes_loop (kTexCoord2f # attributes) stride buffer offset g =
     SetAttributes_loop attributes stride buffer (offset + 2 * sizeof_float)
       (glVertexAttribPointer kAttributeTexCoord 2 GL_FLOAT False stride (buffer + offset)
         (glEnableVertexAttribArray kAttributeTexCoord g))"
| "SetAttributes_loop (kColor4ub # attributes) stride buffer offset g =
     SetAttributes_loop attributes stride buffer (offset + 4)
       (glVertexAttribPointer kAttributeColor 4 GL_UNSIGNED_BYTE True stride (buffer + offset)
         (glEnableVertexAttribArray kAttributeColor g))"
| "SetAttributes_loop (kEND # attributes) stride buffer offset g = Some g"

definition SetAttributes ::
  "GLuint \<Rightarrow> Attribute list \<Rightarrow> int \<Rightarrow> 'p::len word \<Rightarrow> 'p word gl_state \<Rightarrow> 'p word gl_state option" where
  "SetAttributes vbo attributes stride buffer g =
     SetAttributes_loop attributes stride buffer 0 (glBindBuffer GL_ARRAY_BUFFER vbo g)"

fun UnSetAttributes :: "Attribute list \<Rightarrow> 'ptr gl_state \<Rightarrow> 'ptr gl_state option" where
  "UnSetAttributes [] g = None"
| "UnSetAttributes (kPosition3f # attributes) g =
     UnSetAttributes attributes (glDisableVertexAttribArray kAttributePosition g)"
| "UnSetAttributes (kNormal3f # attributes) g =
     UnSetAttributes attributes (glDisableVertexAttribArray kAttributeNormal g)"
| "UnSetAttributes (kTexCoord2f # attributes) g =
     UnSetAttributes attributes (glDisableVertexAttribArray kAttributeTexCoord g)"
| "UnSetAttributes (kColor4ub # attributes) g =
     UnSetAttributes attributes (glDisableVertexAttribArray kAttributeColor g)"
| "UnSetAttributes (kEND # attributes) g = Some g"

subsection \<open>The binding protocol as the specification words it\<close>

text \<open>
  Section 4.1 of the specification gives every field a fixed slot, a component count, a
  component type, a normalization flag and a byte size. These tables follow its words and
  are compared with the two loops above. \<open>kEND\<close> is no field: its entries are a slot
  number outside the four fixed slots, no components and no bytes, and no statement below
  reads them.
\<close>

fun spec_slot :: "Attribute \<Rightarrow> GLuint" where
  "spec_slot kPosition3f = kAttributePosition"
| "spec_slot kNormal3f = kAttributeNormal"
| "spec_slot kTexCoord2f = kAttributeTexCoord"
| "spec_slot kColor4ub = kAttributeColor"
| "spec_slot kEND = 4"

fun spec_components :: "Attribute \<Rightarrow> int" where
  "spec_components kPosition3f = 3"
| "spec_components kNormal3f = 3"
| "spec_components kTexCoord2f = 2"
| "spec_components kColor4ub = 4"
| "spec_components kEND = 0"

fun spec_type :: "Attribute \<Rightarrow> GLenum" where
  "spec_type kColor4ub = GL_UNSIGNED_BYTE"
| "spec_type _ = GL_FLOAT"

fun spec_normalized :: "Attribute \<Rightarrow> bool" where
  "spec_normalized kColor4ub = True"
| "spec_normalized _ = False"

fun spec_size :: "Attribute \<Rightarrow> nat" where
  "spec_size kPosition3f = 12"
| "spec_size kNormal3f = 12"
| "spec_size kTexCoord2f = 8"
| "spec_size kColor4ub = 4"
| "spec_size kEND = 0"

text \<open>The byte offset of field \<open>i\<close>: the sizes of the fields declared before it, added up.\<close>

definition spec_offset :: "Attribute list \<Rightarrow> nat \<Rightarrow> nat" where
  "spec_offset fs i = sum_list (map spec_size (take i fs))"

definition spec_field_calls :: "int \<Rightarrow> 'p::len word \<Rightarrow> Attribute \<Rightarrow> 'p word gl_call list" where
  "spec_field_calls stride pointer f =
     [EnableVertexAttribArray (spec_slot f),
      VertexAttribPointer (spec_slot f) (spec_components f) (spec_type f) (spec_normalized f)
        stride pointer]"

definition spec_Bind_calls :: "int \<Rightarrow> 'p::len word \<Rightarrow> Attribute list \<Rightarrow> 'p word gl_call list" where
  "spec_Bind_calls stride buffer fs =
     concat (map (\<lambda>i. spec_field_calls stride (buffer + of_nat (spec_offset fs i)) (fs ! i))
                 [0..<length fs])"

definition spec_Unbind_calls :: "Attribute list \<Rightarrow> 'ptr gl_call list" where
  "spec_Unbind_calls fs = map (\<lambda>f. DisableVertexAttribArray (spec_slot f)) fs"

definition fixed_slots :: "GLuint set" where
  "fixed_slots = {kAttributePosition, kAttributeNormal, kAttributeTexCoord, kAttributeColor}"

section \<open>Shaders: Renderer::CompileShader and Renderer::CompileAndLinkShader\<close>

text \<open>
  Of the renderer only the member \<^verbatim>\<open>last_error_\<close> matters here (field \<open>last_error\<close>).
  A \<^verbatim>\<open>Shader\<close> holds the members \<^verbatim>\<open>program_\<close>, \<^verbatim>\<open>vs_\<close>, \<^verbatim>\<open>ps_\<close> and three uniform
  locations. \<^verbatim>\<open>PLATFORM_MOBILE\<close> is a build flag.
\<close>

record Renderer =
  last_error :: string

record Shader =
  shader_program :: GLuint
  shader_vs :: GLuint
  shader_ps :: GLuint
  uniform_model_view_projection :: int
  uniform_color :: int
  uniform_texture_unit_0 :: int

datatype platform = PLATFORM_MOBILE | PLATFORM_DESKTOP

definition newline :: char where "newline = CHR 0x0A"

definition preamble :: "platform \<Rightarrow> string" where
  "preamble pf =
     (case pf of
        PLATFORM_MOBILE \<Rightarrow>
          ''#ifdef GL_ES'' @ [newline] @ ''precision highp float;'' @ [newline] @ ''#endif'' @ [newline]
      | PLATFORM_DESKTOP \<Rightarrow> ''#version 120'' @ [newline])"

definition CompileShader ::
  "platform \<Rightarrow> GLenum \<Rightarrow> GLuint \<Rightarrow> string \<Rightarrow> Renderer \<Rightarrow> 'ptr gl_state
     \<Rightarrow> GLuint \<times> Renderer \<times> 'ptr gl_state" where
  "CompileShader pf stage program source r g =
     (let platform_source = preamble pf @ source;
          (shader_obj, g1) = glCreateShader stage g;
          g2 = glShaderSource shader_obj platform_source g1;
          g3 = glCompileShader shader_obj g2;
          success = glGetShaderiv_COMPILE_STATUS shader_obj g3
      in if success then (shader_obj, r, glAttachShader program shader_obj g3)
         else (let len = glGetShaderiv_INFO_LOG_LENGTH shader_obj g3;
                   r1 = r\<lparr>last_error := replicate len NUL\<rparr>;
                   r2 = r1\<lparr>last_error := glGetShaderInfoLog shader_obj len (last_error r1) g3\<rparr>;
                   g4 = glDeleteShader shader_obj g3
               in (0, r2, g4)))"

text \<open>
  Modelled from the spec: the constructor \<^verbatim>\<open>Shader(program, vs, ps)\<close> is in renderer.h; it
  stores the program handle and the two stage handles. The uniform locations are set by
  \<^verbatim>\<open>Initialize\<close>; until then they hold the absent sentinel.
\<close>

definition Shader_ctor :: "GLuint \<Rightarrow> GLuint \<Rightarrow> GLuint \<Rightarrow> Shader" where
  "Shader_ctor program vs ps =
     \<lparr>shader_program = program, shader_vs = vs, shader_ps = ps,
      uniform_model_view_projection = - 1, uniform_color = - 1, uniform_texture_unit_0 = - 1\<rparr>"

definition Shader_Initialize :: "Shader \<Rightarrow> 'ptr gl_state \<Rightarrow> Shader \<times> 'ptr gl_state" where
  "Shader_Initialize sh g =
     (let sh1 = sh\<lparr>uniform_model_view_projection :=
                    glGetUniformLocation (shader_program sh) ''model_view_projection'' g\<rparr>;
          sh2 = sh1\<lparr>uniform_color := glGetUniformLocation (shader_program sh) ''color'' g\<rparr>;
          sh3 = sh2\<lparr>uniform_texture_unit_0 :=
                    glGetUniformLocation (shader_program sh) ''texture_unit_0'' g\<rparr>
      in (sh3, if uniform_texture_unit_0 sh3 \<ge> 0 then glUniform1i (uniform_texture_unit_0 sh3) 0 g
               else g))"

text \<open>
  The result is \<open>None\<close> for \<^verbatim>\<open>nullptr\<close>. The C++ falls through from the link failure to
  \<^verbatim>\<open>glDeleteShader(vs)\<close> and \<^verbatim>\<open>glDeleteProgram(program)\<close>; each branch here spells out the
  statements it runs.
\<close>

definition CompileAndLinkShader ::
  "platform \<Rightarrow> string \<Rightarrow> string \<Rightarrow> Renderer \<Rightarrow> 'ptr gl_state
     \<Rightarrow> Shader option \<times> Renderer \<times> 'ptr gl_state" where
  "CompileAndLinkShader pf vs_source ps_source r g =
     (let (program, g1) = glCreateProgram g;
          (vs, r1, g2) = CompileShader pf GL_VERTEX_SHADER program vs_source r g1
      in if vs \<noteq> 0 then
           (let (ps, r2, g3) = CompileShader pf GL_FRAGMENT_SHADER program ps_source r1 g2
            in if ps \<noteq> 0 then
                 (let g4 = glBindAttribLocation program kAttributePosition ''aPosition'' g3;
                      g5 = glBindAttribLocation program kAttributeNormal ''aNormal'' g4;
                      g6 = glBindAttribLocation program kAttributeTexCoord ''aTexCoord'' g5;
                      g7 = glBindAttribLocation program kAttributeColor ''aColor'' g6;
                      g8 = glLinkProgram program g7;
                      status = glGetProgramiv_LINK_STATUS program g8
                  in if status then
                       (let (shader, g9) = Shader_Initialize (Shader_ctor program vs ps) g8;
                            g10 = glUseProgram program g9
                        in (Some shader, r2, g10))
                     else
                       (let len = glGetProgramiv_INFO_LOG_LENGTH program g8;
                            r3 = r2\<lparr>last_error := replicate len NUL\<rparr>;
                            r4 = r3\<lparr>last_error := glGetProgramInfoLog program len (last_error r3) g8\<rparr>;
                            g9 = glDeleteShader ps g8;
                            g10 = glDeleteShader vs g9;
                            g11 = glDeleteProgram program g10
                        in (None, r4, g11)))
               else
                 (let g4 = glDeleteShader vs g3;
                      g5 = glDeleteProgram program g4
                  in (None, r2, g5)))
         else (None, r1, glDeleteProgram program g2))"

section \<open>Textures: Renderer::CreateTexture and Renderer::CreateTextureFromTGAMemory\<close>

definition CreateTexture :: "byte list \<Rightarrow> int \<times> int \<Rightarrow> 'ptr gl_state \<Rightarrow> GLuint \<times> 'ptr gl_state" where
  "CreateTexture buffer sz g =
     (let (texture_id, g1) = glGenTextures g;
          g2 = glActiveTexture GL_TEXTURE0 g1;
          g3 = glBindTexture GL_TEXTURE_2D texture_id g2;
          g4 = glTexParameteri GL_TEXTURE_2D GL_TEXTURE_WRAP_S GL_REPEAT g3;
          g5 = glTexParameteri GL_TEXTURE_2D GL_TEXTURE_WRAP_T GL_REPEAT g4;
          g6 = glTexParameteri GL_TEXTURE_2D GL_TEXTURE_MAG_FILTER GL_LINEAR g5;
          g7 = glTexParameteri GL_TEXTURE_2D GL_TEXTURE_MIN_FILTER GL_LINEAR_MIPMAP_LINEAR g6;
          g8 = glTexImage2D GL_TEXTURE_2D 0 GL_RGBA (fst sz) (snd sz) 0 GL_RGBA GL_UNSIGNED_BYTE
                 buffer g7;
          g9 = glEnable GL_TEXTURE_2D g8;
          g10 = glEnable GL_ALPHA g9;
          g11 = glEnable GL_BLEND g10;
          g12 = glBlendFunc GL_SRC_ALPHA GL_ONE_MINUS_SRC_ALPHA g11;
          g13 = glEnable GL_DEPTH_TEST g12;
          g14 = glDepthFunc GL_LEQUAL g13;
          g15 = glAlphaFunc GL_GREATER 0.5 g14;
          g16 = glEnable GL_ALPHA_TEST g15;
          g17 = glGenerateMipmap GL_TEXTURE_2D g16
      in (texture_id, g17))"

text \<open>
  The byte order of the host decides how an \<^verbatim>\<open>int\<close> and an \<^verbatim>\<open>unsigned short\<close> lie in
  memory. \<^verbatim>\<open>*reinterpret_cast<char *>(&little_endian)\<close> is the first byte of the
  \<^verbatim>\<open>int\<close> 1.
\<close>

datatype endianness = LittleEndian | BigEndian

definition int_bytes :: "endianness \<Rightarrow> 32 word \<Rightarrow> byte list" where
  "int_bytes host w =
     (let low_first = [ucast w, ucast (drop_bit 8 w), ucast (drop_bit 16 w), ucast (drop_bit 24 w)]
      in case host of LittleEndian \<Rightarrow> low_first | BigEndian \<Rightarrow> rev low_first)"

definition read_short :: "endianness \<Rightarrow> byte \<Rightarrow> byte \<Rightarrow> 16 word" where
  "read_short host first second =
     (case host of
        LittleEndian \<Rightarrow> word_of_nat (unat first + 256 * unat second)
      | BigEndian \<Rightarrow> word_of_nat (256 * unat first + unat second))"

text \<open>\<^verbatim>\<open>struct TGA\<close>, 18 bytes without padding, read in place from the start of the buffer.\<close>

record TGA =
  id_len :: byte
  color_map_type :: byte
  image_type :: byte
  color_map_data :: "byte list"
  x_origin :: "16 word"
  y_origin :: "16 word"
  width :: "16 word"
  height :: "16 word"
  bpp :: byte
  image_descriptor :: byte

text \<open>
  A buffer shorter than the header has no header to read. From here on \<open>None\<close> stands
  for an execution without a defined result: a read or write outside its array, a signed
  overflow, or a loop that does not end.
\<close>

definition TGA_header :: "endianness \<Rightarrow> byte list \<Rightarrow> TGA option" where
  "TGA_header host tga_buf =
     (if length tga_buf < 18 then None
      else Some \<lparr>id_len = tga_buf ! 0, color_map_type = tga_buf ! 1, image_type = tga_buf ! 2,
                 color_map_data = take 5 (drop 3 tga_buf),
                 x_origin = read_short host (tga_buf ! 8) (tga_buf ! 9),
                 y_origin = read_short host (tga_buf ! 10) (tga_buf ! 11),
                 width = read_short host (tga_buf ! 12) (tga_buf ! 13),
                 height = read_short host (tga_buf ! 14) (tga_buf ! 15),
                 bpp = tga_buf ! 16, image_descriptor = tga_buf ! 17\<rparr>)"

definition INT_MAX :: int where "INT_MAX = 2147483647"

definition read_byte :: "byte list \<Rightarrow> nat \<Rightarrow> byte option" where
  "read_byte buf i = (if i < length buf then Some (buf ! i) else None)"

definition store_byte :: "byte list \<Rightarrow> int \<Rightarrow> byte \<Rightarrow> byte list option" where
  "store_byte buf i v = (if 0 \<le> i \<and> nat i < length buf then Some (buf[nat i := v]) else None)"

text \<open>
  The body of the inner loop for the output position \<open>p\<close>:
  \<^verbatim>\<open>p[2] = *pixels++; p[1] = *pixels++; p[0] = *pixels++; p[3] = bpp == 32 ? *pixels++ : 255;\<close>
  The state is the read position in the input and the content of the output array.
\<close>

definition convert_pixel :: "TGA \<Rightarrow> byte list \<Rightarrow> int \<Rightarrow> nat \<times> byte list \<Rightarrow> (nat \<times> byte list) option" where
  "convert_pixel header tga_buf p st =
     (case st of (pixels, rgba) \<Rightarrow>
        do {
          b0 \<leftarrow> read_byte tga_buf pixels;
          rgba1 \<leftarrow> store_byte rgba (p + 2) b0;
          b1 \<leftarrow> read_byte tga_buf (pixels + 1);
          rgba2 \<leftarrow> store_byte rgba1 (p + 1) b1;
          b2 \<leftarrow> read_byte tga_buf (pixels + 2);
          rgba3 \<leftarrow> store_byte rgba2 (p + 0) b2;
          if bpp header = 32
          then do {
            b3 \<leftarrow> read_byte tga_buf (pixels + 3);
            rgba4 \<leftarrow> store_byte rgba3 (p + 3) b3;
            Some (pixels + 4, rgba4)
          }
          else do {
            rgba4 \<leftarrow> store_byte rgba3 (p + 3) 255;
            Some (pixels + 3, rgba4)
          }
        })"

text \<open>\<^verbatim>\<open>for (int x = 0; x < header->width; x++)\<close>\<close>

function col_loop :: "TGA \<Rightarrow> byte list \<Rightarrow> int \<Rightarrow> int \<Rightarrow> nat \<times> byte list \<Rightarrow> (nat \<times> byte list) option" where
  "col_loop header tga_buf y x st =
     (if x < uint (width header)
      then (case convert_pixel header tga_buf ((y * uint (width header) + x) * 4) st of
              None \<Rightarrow> None
            | Some st' \<Rightarrow> col_loop header tga_buf y (x + 1) st')
      else Some st)"
  by pat_completeness auto
termination
  by (relation "measure (\<lambda>(header, tga_buf, y, x, st). nat (uint (width header) - x))") auto

text \<open>
  \<^verbatim>\<open>for (int y = start_y; y != end_y; y += y_direction)\<close>
  Nothing in the loop itself says that \<open>y\<close> reaches \<open>end_y\<close>.
\<close>

partial_function (option) row_loop ::
  "TGA \<Rightarrow> byte list \<Rightarrow> int \<Rightarrow> int \<Rightarrow> int \<Rightarrow> nat \<times> byte list \<Rightarrow> (nat \<times> byte list) option" where
  "row_loop header tga_buf y end_y y_direction st =
     (if y \<noteq> end_y
      then (case col_loop header tga_buf y 0 st of
              None \<Rightarrow> None
            | Some st' \<Rightarrow> row_loop header tga_buf (y + y_direction) end_y y_direction st')
      else Some st)"

text \<open>
  \<open>fresh_storage\<close> is what \<^verbatim>\<open>new unsigned char[size * 4]\<close> happens to hold. The result
  is the returned texture name, 0 for a rejected buffer, and the GL state.
\<close>

definition CreateTextureFromTGAMemory ::
  "endianness \<Rightarrow> (nat \<Rightarrow> byte) \<Rightarrow> byte list \<Rightarrow> 'ptr gl_state \<Rightarrow> (GLuint \<times> 'ptr gl_state) option" where
  "CreateTextureFromTGAMemory host fresh_storage tga_buf g =
     (if hd (int_bytes host 1) = 0 then Some (0, g)
      else case TGA_header host tga_buf of
        None \<Rightarrow> None
      | Some header \<Rightarrow>
          if color_map_type header \<noteq> 0 \<or> image_type header \<noteq> 2
             \<or> (bpp header \<noteq> 32 \<and> bpp header \<noteq> 24)
          then Some (0, g)
          else
            (let pixels = 18 + unat (id_len header);
                 sz = uint (width header) * uint (height header)
             in if sz * 4 > INT_MAX then None
                else
                  (let rgba = map fresh_storage [0..<nat (sz * 4)];
                       (start_y, end_y, y_direction) =
                         (if image_descriptor header AND 0x20 \<noteq> 0
                          then (uint (height header) - 1, - 1, - 1)
                          else (0, uint (height header), 1))
                   in case row_loop header tga_buf start_y end_y y_direction (pixels, rgba) of
                        None \<Rightarrow> None
                      | Some (pixels', rgba') \<Rightarrow>
                          Some (CreateTexture rgba' (uint (width header), uint (height header)) g))))"

section \<open>Mesh\<close>

text \<open>
  The fields of \<^verbatim>\<open>Mesh\<close> and of its nested \<^verbatim>\<open>Indices\<close> are declared in renderer.h and
  used by the code below. The members \<^verbatim>\<open>vbo_\<close>, \<^verbatim>\<open>vertex_size_\<close>, \<^verbatim>\<open>format_\<close> and
  \<^verbatim>\<open>indices_\<close> are the fields \<open>mesh_vbo\<close>, \<open>mesh_vertex_size\<close>, \<open>mesh_format\<close> and
  \<open>mesh_indices\<close> (a name may not end in an underscore here). \<^verbatim>\<open>format_\<close> points to
  an attribute array the mesh does not own; the model holds the array it points to. A
  material is known by its address.
\<close>

record Indices =
  count :: int
  ibo :: GLuint
  mat :: Material_ptr

record Mesh =
  mesh_vbo :: GLuint
  mesh_vertex_size :: int
  mesh_format :: "Attribute list"
  mesh_indices :: "Indices list"

definition sizeof_int :: "'p::len word" where "sizeof_int = 4"

text \<open>
  \<^verbatim>\<open>count * vertex_size\<close> multiplies two 32-bit \<^verbatim>\<open>int\<close>s: the product keeps its low 32
  bits, as the compiled code does. An \<^verbatim>\<open>int\<close> handed to a parameter of pointer width
  (\<^verbatim>\<open>GLsizeiptr\<close>, \<^verbatim>\<open>size_t\<close>) is sign-extended.
\<close>

definition int_mul :: "int \<Rightarrow> int \<Rightarrow> 32 word" where
  "int_mul a b = word_of_int a * word_of_int b"

definition int_to_size :: "32 word \<Rightarrow> 'p::len word" where
  "int_to_size w = scast w"

text \<open>\<^verbatim>\<open>it->mat->Set(renderer)\<close>: what the material does is not part of this file.\<close>

definition Material_Set :: "Material_ptr \<Rightarrow> 'ptr gl_state \<Rightarrow> 'ptr gl_state" where
  "Material_Set m g = issue (MaterialSet m) g"

definition Mesh_ctor ::
  "'p::len word \<Rightarrow> int \<Rightarrow> int \<Rightarrow> Attribute list \<Rightarrow> 'p word gl_state \<Rightarrow> Mesh \<times> 'p word gl_state" where
  "Mesh_ctor vertex_data cnt vertex_size format g =
     (let (vbo, g1) = glGenBuffers g;
          g2 = glBindBuffer GL_ARRAY_BUFFER vbo g1;
          g3 = glBufferData GL_ARRAY_BUFFER (int_to_size (int_mul cnt vertex_size)) vertex_data
                 GL_STATIC_DRAW g2
      in (\<lparr>mesh_vbo = vbo, mesh_vertex_size = vertex_size, mesh_format = format, mesh_indices = []\<rparr>, g3))"

text \<open>\<^verbatim>\<open>indices_.push_back(Indices())\<close>, then the new last element is filled in.\<close>

definition AddIndices ::
  "'p::len word \<Rightarrow> int \<Rightarrow> Material_ptr \<Rightarrow> Mesh \<Rightarrow> 'p word gl_state \<Rightarrow> Mesh \<times> 'p word gl_state" where
  "AddIndices index_data cnt material m g =
     (let (name, g1) = glGenBuffers g;
          g2 = glBindBuffer GL_ELEMENT_ARRAY_BUFFER name g1;
          g3 = glBufferData GL_ELEMENT_ARRAY_BUFFER (int_to_size (word_of_int cnt) * sizeof_int)
                 index_data GL_STATIC_DRAW g2
      in (m\<lparr>mesh_indices := mesh_indices m @ [\<lparr>count = cnt, ibo = name, mat = material\<rparr>]\<rparr>, g3))"

text \<open>\<^verbatim>\<open>for (auto it = indices_.begin(); it != indices_.end(); ++it)\<close> in the destructor.\<close>

fun Mesh_dtor_loop :: "Indices list \<Rightarrow> 'ptr gl_state \<Rightarrow> 'ptr gl_state" where
  "Mesh_dtor_loop [] g = g"
| "Mesh_dtor_loop (it # rest) g = Mesh_dtor_loop rest (glDeleteBuffers (ibo it) g)"

definition Mesh_dtor :: "Mesh \<Rightarrow> 'ptr gl_state \<Rightarrow> 'ptr gl_state" where
  "Mesh_dtor m g = Mesh_dtor_loop (mesh_indices m) (glDeleteBuffers (mesh_vbo m) g)"

text \<open>The same iteration in \<^verbatim>\<open>Render\<close>.\<close>

fun Render_loop :: "Indices list \<Rightarrow> 'p::len word gl_state \<Rightarrow> 'p word gl_state" where
  "Render_loop [] g = g"
| "Render_loop (it # rest) g =
     Render_loop rest
       (glDrawElements GL_TRIANGLES (count it) GL_UNSIGNED_INT 0
         (glBindBuffer GL_ELEMENT_ARRAY_BUFFER (ibo it)
           (Material_Set (mat it) g)))"

definition Render :: "Mesh \<Rightarrow> 'p::len word gl_state \<Rightarrow> 'p word gl_state option" where
  "Render m g =
     (case SetAttributes (mesh_vbo m) (mesh_format m) (mesh_vertex_size m) 0 g of
        None \<Rightarrow> None
      | Some g1 \<Rightarrow> UnSetAttributes (mesh_format m) (Render_loop (mesh_indices m) g1))"

subsection \<open>Observations on issued commands\<close>

text \<open>The commands issued between two states, and what they draw, generate and delete.\<close>

definition issued_since :: "'ptr gl_state \<Rightarrow> 'ptr gl_state \<Rightarrow> 'ptr gl_call list" where
  "issued_since g g' = drop (length (calls g)) (calls g')"

fun is_draw :: "'ptr gl_call \<Rightarrow> bool" where
  "is_draw (DrawElements mode cnt type indices) = True"
| "is_draw _ = False"

fun generated_buffers :: "'ptr gl_call list \<Rightarrow> GLuint list" where
  "generated_buffers [] = []"
| "generated_buffers (GenBuffers n # cs) = n # generated_buffers cs"
| "generated_buffers (_ # cs) = generated_buffers cs"

fun deleted_buffers :: "'ptr gl_call list \<Rightarrow> GLuint list" where
  "deleted_buffers [] = []"
| "deleted_buffers (DeleteBuffers n # cs) = n # deleted_buffers cs"
| "deleted_buffers (_ # cs) = deleted_buffers cs"

text \<open>The images handed to the GL: width, height and the bytes of the client buffer.\<close>

fun uploaded_images :: "'ptr gl_call list \<Rightarrow> (int \<times> int \<times> byte list) list" where
  "uploaded_images [] = []"
| "uploaded_images (TexImage2D target level internalformat w h border format type pixels # cs) =
     (w, h, pixels) # uploaded_images cs"
| "uploaded_images (_ # cs) = uploaded_images cs"

text \<open>The shader and program objects created and deleted by a sequence of commands.\<close>

fun created_objects :: "'ptr gl_call list \<Rightarrow> GLuint list" where
  "created_objects [] = []"
| "created_objects (CreateShader type n # cs) = n # created_objects cs"
| "created_objects (CreateProgram n # cs) = n # created_objects cs"
| "created_objects (_ # cs) = created_objects cs"

fun deleted_objects :: "'ptr gl_call list \<Rightarrow> GLuint list" where
  "deleted_objects [] = []"
| "deleted_objects (DeleteShader n # cs) = n # deleted_objects cs"
| "deleted_objects (DeleteProgram n # cs) = n # deleted_objects cs"
| "deleted_objects (_ # cs) = deleted_objects cs"

fun attached_objects :: "'ptr gl_call list \<Rightarrow> GLuint list" where
  "attached_objects [] = []"
| "attached_objects (AttachShader program n # cs) = n # attached_objects cs"
| "attached_objects (_ # cs) = attached_objects cs"

definition alive_objects :: "'ptr gl_call list \<Rightarrow> GLuint list" where
  "alive_objects cs = filter (\<lambda>n. n \<notin> set (deleted_objects cs)) (created_objects cs)"

text \<open>
  The information log as it ends up in \<^verbatim>\<open>last_error_\<close>: the text and its terminator, or
  nothing for an object without log. The log of the step at which an attempt fails.
\<close>

definition log_text :: "string option \<Rightarrow> string" where
  "log_text info = (case info of None \<Rightarrow> [] | Some text \<Rightarrow> text @ [NUL])"

definition attempt_sources :: "platform \<Rightarrow> string \<Rightarrow> string \<Rightarrow> (GLenum \<times> string) list" where
  "attempt_sources pf vs_source ps_source =
     [(GL_VERTEX_SHADER, preamble pf @ vs_source), (GL_FRAGMENT_SHADER, preamble pf @ ps_source)]"

definition attempt_succeeds :: "driver \<Rightarrow> platform \<Rightarrow> string \<Rightarrow> string \<Rightarrow> bool" where
  "attempt_succeeds d pf vs_source ps_source =
     (compiles d GL_VERTEX_SHADER (preamble pf @ vs_source) \<and>
      compiles d GL_FRAGMENT_SHADER (preamble pf @ ps_source) \<and>
      links d (attempt_sources pf vs_source ps_source))"

definition failure_log :: "driver \<Rightarrow> platform \<Rightarrow> string \<Rightarrow> string \<Rightarrow> string option" where
  "failure_log d pf vs_source ps_source =
     (if \<not> compiles d GL_VERTEX_SHADER (preamble pf @ vs_source)
      then compile_log d GL_VERTEX_SHADER (preamble pf @ vs_source)
      else if \<not> compiles d GL_FRAGMENT_SHADER (preamble pf @ ps_source)
      then compile_log d GL_FRAGMENT_SHADER (preamble pf @ ps_source)
      else link_log d (attempt_sources pf vs_source ps_source))"

text \<open>What the specification says Render issues for one IndexRange.\<close>

definition spec_range_calls :: "Indices \<Rightarrow> 'p::len word gl_call list" where
  "spec_range_calls r =
     [MaterialSet (mat r), BindBuffer GL_ELEMENT_ARRAY_BUFFER (ibo r),
      DrawElements GL_TRIANGLES (count r) GL_UNSIGNED_INT 0]"

text \<open>A client that calls AddIndices once for every entry of a list, in order.\<close>

fun AddIndices_each ::
  "('p::len word \<times> int \<times> Material_ptr) list \<Rightarrow> Mesh \<Rightarrow> 'p word gl_state \<Rightarrow> Mesh \<times> 'p word gl_state" where
  "AddIndices_each [] m g = (m, g)"
| "AddIndices_each ((index_data, cnt, material) # later) m g =
     (case AddIndices index_data cnt material m g of (m', g') \<Rightarrow> AddIndices_each later m' g')"

subsection \<open>Concrete states for the examples\<close>

text \<open>
  The state of a fresh GL context: nothing issued, no object created, every vertex
  attribute array disabled.
\<close>

definition gl_initial :: "driver \<Rightarrow> 'ptr gl_state" where
  "gl_initial d =
     \<lparr>calls = [], names_issued = 0, attrib_enabled = {},
      shader_type = (\<lambda>_. GL_VERTEX_SHADER), shader_source = (\<lambda>_. []),
      compile_status = (\<lambda>_. False), shader_info_log = (\<lambda>_. None),
      attached_shaders = (\<lambda>_. []), link_status = (\<lambda>_. False),
      program_info_log = (\<lambda>_. None), gl_driver = d\<rparr>"

text \<open>A driver that accepts every shader and every program and logs nothing.\<close>

definition accepting_driver :: driver where
  "accepting_driver =
     \<lparr>compiles = (\<lambda>_ _. True), compile_log = (\<lambda>_ _. None),
      links = (\<lambda>_. True), link_log = (\<lambda>_. None),
      uniform_location = (\<lambda>_ _. - 1)\<rparr>"

text \<open>
  A driver that rejects every shader with a message, one that rejects every shader and
  keeps no information log, and one that compiles every shader and refuses to link.
\<close>

definition rejecting_driver :: driver where
  "rejecting_driver =
     \<lparr>compiles = (\<lambda>_ _. False), compile_log = (\<lambda>_ _. Some ''syntax error''),
      links = (\<lambda>_. False), link_log = (\<lambda>_. Some ''link error''),
      uniform_location = (\<lambda>_ _. - 1)\<rparr>"

definition silent_rejecting_driver :: driver where
  "silent_rejecting_driver =
     \<lparr>compiles = (\<lambda>_ _. False), compile_log = (\<lambda>_ _. None),
      links = (\<lambda>_. False), link_log = (\<lambda>_. None),
      uniform_location = (\<lambda>_ _. - 1)\<rparr>"

definition link_rejecting_driver :: driver where
  "link_rejecting_driver =
     \<lparr>compiles = (\<lambda>_ _. True), compile_log = (\<lambda>_ _. None),
      links = (\<lambda>_. False), link_log = (\<lambda>_. Some ''link error''),
      uniform_location = (\<lambda>_ _. - 1)\<rparr>"

definition stale_renderer :: Renderer where
  "stale_renderer = \<lparr>last_error = ''earlier message''\<rparr>"

text \<open>A state in which the normal slot, and no other, is enabled.\<close>

definition normal_enabled_state :: "32 word gl_state" where
  "normal_enabled_state = (gl_initial accepting_driver)\<lparr>attrib_enabled := {kAttributeNormal}\<rparr>"

text \<open>A mesh with two index ranges.\<close>

definition two_range_mesh :: Mesh where
  "two_range_mesh =
     \<lparr>mesh_vbo = 1, mesh_vertex_size = 20, mesh_format = [kPosition3f, kTexCoord2f, kEND],
      mesh_indices = [\<lparr>count = 6, ibo = 2, mat = 100\<rparr>, \<lparr>count = 3, ibo = 3, mat = 200\<rparr>]\<rparr>"

section \<open>Properties\<close>

lemma calls_issue [simp]: "calls (issue c g) = calls g @ [c]"
  by (simp add: issue_def)

lemma attrib_enabled_issue [simp]: "attrib_enabled (issue c g) = attrib_enabled g"
  by (simp add: issue_def)

lemmas slot_defs =
  kAttributePosition_def kAttributeNormal_def kAttributeTexCoord_def kAttributeColor_def

subsection \<open>The attribute walks\<close>

lemma spec_offset_0 [simp]: "spec_offset fs 0 = 0"
  by (simp add: spec_offset_def)

lemma spec_offset_Suc [simp]: "spec_offset (f # fs) (Suc i) = spec_size f + spec_offset fs i"
  by (simp add: spec_offset_def)

lemma spec_Bind_calls_Nil [simp]: "spec_Bind_calls stride buffer [] = []"
  by (simp add: spec_Bind_calls_def)

text \<open>Binding \<open>f # fs\<close> at \<open>buffer\<close> is binding \<open>f\<close> there and \<open>fs\<close> just behind it.\<close>

lemma spec_Bind_calls_Cons:
  "spec_Bind_calls stride buffer (f # fs) =
     spec_field_calls stride buffer f @ spec_Bind_calls stride (buffer + of_nat (spec_size f)) fs"
proof -
  have "[0..<length (f # fs)] = 0 # map Suc [0..<length fs]"
    by (simp add: upt_conv_Cons map_Suc_upt del: upt_Suc)
  then show ?thesis
    by (simp add: spec_Bind_calls_def o_def add.assoc)
qed

lemma SetAttributes_loop_fields:
  "kEND \<notin> set fs \<Longrightarrow>
   SetAttributes_loop (fs @ kEND # rest) stride buffer offset g =
     Some (g\<lparr>calls := calls g @ spec_Bind_calls stride (buffer + offset) fs,
             attrib_enabled := attrib_enabled g \<union> spec_slot ` set fs\<rparr>)"
proof (induction fs arbitrary: offset g)
  case Nil
  then show ?case by simp
next
  case (Cons f fs)
  then show ?case
    by (cases f)
       (simp_all add: spec_Bind_calls_Cons spec_field_calls_def glVertexAttribPointer_def
          glEnableVertexAttribArray_def issue_def sizeof_float_def kAttributePosition_def
          kAttributeNormal_def kAttributeTexCoord_def kAttributeColor_def add.assoc)
qed

lemma SetAttributes_fields:
  "kEND \<notin> set fs \<Longrightarrow>
   SetAttributes vbo (fs @ kEND # rest) stride buffer g =
     Some (g\<lparr>calls := calls g @ BindBuffer GL_ARRAY_BUFFER vbo # spec_Bind_calls stride buffer fs,
             attrib_enabled := attrib_enabled g \<union> spec_slot ` set fs\<rparr>)"
  by (simp add: SetAttributes_def SetAttributes_loop_fields glBindBuffer_def issue_def)

lemma Diff_single_Diff: "A - {x} - B = A - insert x B"
  by auto

lemma UnSetAttributes_fields:
  "kEND \<notin> set fs \<Longrightarrow>
   UnSetAttributes (fs @ kEND # rest) g =
     Some (g\<lparr>calls := calls g @ spec_Unbind_calls fs,
             attrib_enabled := attrib_enabled g - spec_slot ` set fs\<rparr>)"
proof (induction fs arbitrary: g)
  case Nil
  then show ?case by (simp add: spec_Unbind_calls_def)
next
  case (Cons f fs)
  then show ?case
    by (cases f)
       (simp_all add: spec_Unbind_calls_def glDisableVertexAttribArray_def issue_def
          Diff_single_Diff kAttributePosition_def kAttributeNormal_def kAttributeTexCoord_def
          kAttributeColor_def)
qed

lemma SetAttributes_loop_no_END:
  "kEND \<notin> set attrs \<Longrightarrow> SetAttributes_loop attrs stride buffer offset g = None"
  by (induction attrs stride buffer offset g rule: SetAttributes_loop.induct) simp_all

lemma UnSetAttributes_no_END: "kEND \<notin> set attrs \<Longrightarrow> UnSetAttributes attrs g = None"
  by (induction attrs g rule: UnSetAttributes.induct) simp_all

lemma split_at_END:
  "kEND \<in> set attrs \<Longrightarrow>
   attrs = takeWhile (\<lambda>a. a \<noteq> kEND) attrs @ kEND # tl (dropWhile (\<lambda>a. a \<noteq> kEND) attrs)
   \<and> kEND \<notin> set (takeWhile (\<lambda>a. a \<noteq> kEND) attrs)"
  by (induction attrs) auto

text \<open>
  C1. For a field sequence \<open>fs\<close> followed by \<open>kEND\<close> (and by anything after it),
  SetAttributes binds the vertex buffer and then, field by field in declaration order,
  enables the field's slot and registers its component count, type, normalization flag
  and the address \<open>buffer\<close> plus the sizes of the fields before it (12, 12, 8 and 4
  bytes; only the colour is normalized). It returns at the first \<open>kEND\<close>.
\<close>

theorem SetAttributes_walks_fields_in_order:
  assumes "kEND \<notin> set fs"
  shows "SetAttributes vbo (fs @ kEND # rest) stride buffer g =
     Some (g\<lparr>calls := calls g @ BindBuffer GL_ARRAY_BUFFER vbo # spec_Bind_calls stride buffer fs,
             attrib_enabled := attrib_enabled g \<union> spec_slot ` set fs\<rparr>)"
  using assms by (rule SetAttributes_fields)

theorem SetAttributes_walks_fields_in_order_witness:
  "kEND \<notin> set [kPosition3f, kTexCoord2f, kColor4ub] \<and>
   map_option calls
     (SetAttributes 7 ([kPosition3f, kTexCoord2f, kColor4ub] @ kEND # [kNormal3f]) 24 (0 :: 32 word)
        (gl_initial accepting_driver)) =
   Some [BindBuffer GL_ARRAY_BUFFER 7,
         EnableVertexAttribArray 0, VertexAttribPointer 0 3 GL_FLOAT False 24 0,
         EnableVertexAttribArray 2, VertexAttribPointer 2 2 GL_FLOAT False 24 12,
         EnableVertexAttribArray 3, VertexAttribPointer 3 4 GL_UNSIGNED_BYTE True 24 20]"
  using SetAttributes_walks_fields_in_order
    [of "[kPosition3f, kTexCoord2f, kColor4ub]" 7 "[kNormal3f]" 24 "0 :: 32 word"
        "gl_initial accepting_driver"]
  by (simp add: spec_Bind_calls_def spec_field_calls_def spec_offset_def gl_initial_def slot_defs)

text \<open>
  C2, as the code has it. Bind followed at once by Unbind with the same End-terminated
  format returns, leaves the slot of every field of the format disabled and leaves every
  other slot as it was before Bind. So all four fixed slots are disabled afterwards
  whenever they were disabled before, as in a fresh context.
\<close>

theorem Bind_then_Unbind_disables_format_slots:
  assumes "kEND \<notin> set fs"
  shows "\<exists>g1 g2. SetAttributes vbo (fs @ kEND # rest) stride buffer g = Some g1
           \<and> UnSetAttributes (fs @ kEND # rest) g1 = Some g2
           \<and> attrib_enabled g2 = attrib_enabled g - spec_slot ` set fs
           \<and> (attrib_enabled g \<inter> fixed_slots = {} \<longrightarrow> attrib_enabled g2 \<inter> fixed_slots = {})"
proof -
  let ?g1 = "g\<lparr>calls := calls g @ BindBuffer GL_ARRAY_BUFFER vbo # spec_Bind_calls stride buffer fs,
                attrib_enabled := attrib_enabled g \<union> spec_slot ` set fs\<rparr>"
  let ?g2 = "?g1\<lparr>calls := calls ?g1 @ spec_Unbind_calls fs,
                  attrib_enabled := attrib_enabled ?g1 - spec_slot ` set fs\<rparr>"
  have "SetAttributes vbo (fs @ kEND # rest) stride buffer g = Some ?g1"
    using assms by (rule SetAttributes_fields)
  moreover have "UnSetAttributes (fs @ kEND # rest) ?g1 = Some ?g2"
    using assms by (rule UnSetAttributes_fields)
  moreover have "attrib_enabled ?g2 = attrib_enabled g - spec_slot ` set fs"
    by auto
  moreover have "attrib_enabled g \<inter> fixed_slots = {} \<longrightarrow> attrib_enabled ?g2 \<inter> fixed_slots = {}"
    by auto
  ultimately show ?thesis by blast
qed

theorem Bind_then_Unbind_disables_format_slots_witness:
  "kEND \<notin> set [kPosition3f, kColor4ub]
   \<and> attrib_enabled (gl_initial accepting_driver :: 32 word gl_state) \<inter> fixed_slots = {}
   \<and> (\<exists>g1 g2. SetAttributes 7 ([kPosition3f, kColor4ub] @ kEND # []) 16 (0 :: 32 word)
                   (gl_initial accepting_driver) = Some g1
           \<and> UnSetAttributes ([kPosition3f, kColor4ub] @ kEND # []) g1 = Some g2
           \<and> attrib_enabled g2 = {}
           \<and> attrib_enabled g2 \<inter> fixed_slots = {})"
  using Bind_then_Unbind_disables_format_slots
    [of "[kPosition3f, kColor4ub]" 7 "[]" 16 0 "gl_initial accepting_driver :: 32 word gl_state"]
  by (simp add: gl_initial_def)

text \<open>
  C2, as stated, has all four slots disabled after the pair whatever the state before.
  With the normal slot enabled before and a format that holds only a position, neither
  walk touches the normal slot: it is still enabled afterwards.
\<close>

theorem Bind_then_Unbind_other_slot_stays_enabled_counterexample:
  "map_option attrib_enabled
     (Option.bind (SetAttributes 7 [kPosition3f, kEND] 12 0 normal_enabled_state)
        (UnSetAttributes [kPosition3f, kEND])) = Some {kAttributeNormal}
   \<and> kAttributeNormal \<in> fixed_slots"
  by (simp add: SetAttributes_def normal_enabled_state_def gl_initial_def glBindBuffer_def
        glEnableVertexAttribArray_def glVertexAttribPointer_def glDisableVertexAttribArray_def
        issue_def fixed_slots_def slot_defs)

text \<open>
  C10. Both walks return exactly when \<open>kEND\<close> occurs in the array. When it does, they
  process the fields before its first occurrence and nothing else; when it does not, the
  walk runs off the end of the array and never returns from inside it.
\<close>

theorem attribute_walks_return_iff_END:
  "((\<exists>g'. SetAttributes vbo attrs stride buffer g = Some g') \<longleftrightarrow> kEND \<in> set attrs) \<and>
   ((\<exists>g'. UnSetAttributes attrs g = Some g') \<longleftrightarrow> kEND \<in> set attrs) \<and>
   (kEND \<in> set attrs \<longrightarrow>
      SetAttributes vbo attrs stride buffer g =
        Some (g\<lparr>calls := calls g @ BindBuffer GL_ARRAY_BUFFER vbo #
                       spec_Bind_calls stride buffer (takeWhile (\<lambda>a. a \<noteq> kEND) attrs),
                attrib_enabled :=
                  attrib_enabled g \<union> spec_slot ` set (takeWhile (\<lambda>a. a \<noteq> kEND) attrs)\<rparr>) \<and>
      UnSetAttributes attrs g =
        Some (g\<lparr>calls := calls g @ spec_Unbind_calls (takeWhile (\<lambda>a. a \<noteq> kEND) attrs),
                attrib_enabled :=
                  attrib_enabled g - spec_slot ` set (takeWhile (\<lambda>a. a \<noteq> kEND) attrs)\<rparr>)) \<and>
   (kEND \<notin> set attrs \<longrightarrow>
      SetAttributes vbo attrs stride buffer g = None \<and> UnSetAttributes attrs g = None)"
proof (cases "kEND \<in> set attrs")
  case True
  let ?fs = "takeWhile (\<lambda>a. a \<noteq> kEND) attrs"
  let ?rest = "tl (dropWhile (\<lambda>a. a \<noteq> kEND) attrs)"
  from True have eq: "attrs = ?fs @ kEND # ?rest" and no: "kEND \<notin> set ?fs"
    using split_at_END [of attrs] by blast+
  have "SetAttributes vbo (?fs @ kEND # ?rest) stride buffer g =
          Some (g\<lparr>calls := calls g @ BindBuffer GL_ARRAY_BUFFER vbo # spec_Bind_calls stride buffer ?fs,
                  attrib_enabled := attrib_enabled g \<union> spec_slot ` set ?fs\<rparr>)"
    using no by (rule SetAttributes_fields)
  moreover have "UnSetAttributes (?fs @ kEND # ?rest) g =
          Some (g\<lparr>calls := calls g @ spec_Unbind_calls ?fs,
                  attrib_enabled := attrib_enabled g - spec_slot ` set ?fs\<rparr>)"
    using no by (rule UnSetAttributes_fields)
  ultimately show ?thesis
    using True eq by simp
next
  case False
  then show ?thesis
    by (simp add: SetAttributes_def SetAttributes_loop_no_END UnSetAttributes_no_END)
qed

theorem attribute_walks_return_iff_END_witness:
  "kEND \<in> set [kNormal3f, kEND, kColor4ub, kEND]
   \<and> map_option calls
        (SetAttributes 3 [kNormal3f, kEND, kColor4ub, kEND] 12 (0 :: 32 word)
           (gl_initial accepting_driver)) =
      Some [BindBuffer GL_ARRAY_BUFFER 3,
            EnableVertexAttribArray 1, VertexAttribPointer 1 3 GL_FLOAT False 12 0]
   \<and> map_option calls
        (UnSetAttributes [kNormal3f, kEND, kColor4ub, kEND]
           (gl_initial accepting_driver :: 32 word gl_state)) =
      Some [DisableVertexAttribArray 1]
   \<and> kEND \<notin> set [kNormal3f, kColor4ub]
   \<and> SetAttributes 3 [kNormal3f, kColor4ub] 12 (0 :: 32 word) (gl_initial accepting_driver) = None
   \<and> UnSetAttributes [kNormal3f, kColor4ub] (gl_initial accepting_driver :: 32 word gl_state) = None"
  using attribute_walks_return_iff_END
          [of 3 "[kNormal3f, kEND, kColor4ub, kEND]" 12 "0 :: 32 word" "gl_initial accepting_driver"]
        attribute_walks_return_iff_END
          [of 3 "[kNormal3f, kColor4ub]" 12 "0 :: 32 word" "gl_initial accepting_driver"]
  by (simp add: spec_Bind_calls_def spec_Unbind_calls_def spec_field_calls_def spec_offset_def
        gl_initial_def slot_defs)

subsection \<open>Mesh\<close>

lemma Render_loop_calls:
  "Render_loop rs g = g\<lparr>calls := calls g @ concat (map spec_range_calls rs)\<rparr>"
  by (induction rs arbitrary: g)
     (simp_all add: spec_range_calls_def glDrawElements_def glBindBuffer_def Material_Set_def issue_def)

lemma filter_draw_Bind [simp]: "filter is_draw (spec_Bind_calls stride buffer fs) = []"
  by (induction fs arbitrary: buffer) (simp_all add: spec_Bind_calls_Cons spec_field_calls_def)

lemma filter_draw_Unbind [simp]: "filter is_draw (spec_Unbind_calls fs) = []"
  by (induction fs) (simp_all add: spec_Unbind_calls_def)

lemma filter_draw_ranges [simp]:
  "filter is_draw (concat (map spec_range_calls rs)) =
     map (\<lambda>r. DrawElements GL_TRIANGLES (count r) GL_UNSIGNED_INT 0) rs"
  by (induction rs) (simp_all add: spec_range_calls_def)

lemma Render_calls:
  assumes "mesh_format m = fs @ kEND # rest" and "kEND \<notin> set fs"
  shows "Render m g =
     Some (g\<lparr>calls := calls g @ (BindBuffer GL_ARRAY_BUFFER (mesh_vbo m) # spec_Bind_calls (mesh_vertex_size m) 0 fs)
                     @ concat (map spec_range_calls (mesh_indices m)) @ spec_Unbind_calls fs,
             attrib_enabled := attrib_enabled g \<union> spec_slot ` set fs - spec_slot ` set fs\<rparr>)"
  using assms
  by (simp add: Render_def SetAttributes_fields UnSetAttributes_fields Render_loop_calls)

lemma Mesh_dtor_loop_calls:
  "Mesh_dtor_loop rs g = g\<lparr>calls := calls g @ map (\<lambda>r. DeleteBuffers (ibo r)) rs\<rparr>"
  by (induction rs arbitrary: g) (simp_all add: glDeleteBuffers_def issue_def)

lemma Mesh_dtor_calls:
  "Mesh_dtor m g = g\<lparr>calls := calls g @ DeleteBuffers (mesh_vbo m) # map (\<lambda>r. DeleteBuffers (ibo r)) (mesh_indices m)\<rparr>"
  by (simp add: Mesh_dtor_def Mesh_dtor_loop_calls glDeleteBuffers_def issue_def)

lemma deleted_buffers_map [simp]: "deleted_buffers (map DeleteBuffers ns) = ns"
  by (induction ns) simp_all

lemma generated_buffers_append [simp]:
  "generated_buffers (cs @ ds) = generated_buffers cs @ generated_buffers ds"
  by (induction cs rule: generated_buffers.induct) simp_all

lemma AddIndices_effect:
  "AddIndices index_data cnt material m g =
     (m\<lparr>mesh_indices := mesh_indices m @ [\<lparr>count = cnt, ibo = Suc (names_issued g), mat = material\<rparr>]\<rparr>,
      g\<lparr>calls := calls g @ [GenBuffers (Suc (names_issued g)),
                             BindBuffer GL_ELEMENT_ARRAY_BUFFER (Suc (names_issued g)),
                             BufferData GL_ELEMENT_ARRAY_BUFFER (int_to_size (word_of_int cnt) * sizeof_int) index_data GL_STATIC_DRAW],
        names_issued := Suc (names_issued g)\<rparr>)"
  by (simp add: AddIndices_def glGenBuffers_def glBindBuffer_def glBufferData_def issue_def
        fresh_name_def take_name_def)

lemma issued_since_append [simp]: "calls g' = calls g @ cs \<Longrightarrow> issued_since g g' = cs"
  by (simp add: issued_since_def)

lemma Mesh_ctor_effect:
  "Mesh_ctor vertex_data cnt vertex_size format g =
     (\<lparr>mesh_vbo = Suc (names_issued g), mesh_vertex_size = vertex_size, mesh_format = format,
       mesh_indices = []\<rparr>,
      g\<lparr>calls := calls g @ [GenBuffers (Suc (names_issued g)),
                             BindBuffer GL_ARRAY_BUFFER (Suc (names_issued g)),
                             BufferData GL_ARRAY_BUFFER (int_to_size (int_mul cnt vertex_size)) vertex_data GL_STATIC_DRAW],
        names_issued := Suc (names_issued g)\<rparr>)"
  by (simp add: Mesh_ctor_def glGenBuffers_def glBindBuffer_def glBufferData_def issue_def
        fresh_name_def take_name_def)

lemma AddIndices_each_effect:
  "AddIndices_each adds m g = (m', g') \<Longrightarrow>
     mesh_vbo m' = mesh_vbo m \<and>
     map ibo (mesh_indices m') =
       map ibo (mesh_indices m) @ [Suc (names_issued g)..<Suc (names_issued g) + length adds] \<and>
     map count (mesh_indices m') = map count (mesh_indices m) @ map (\<lambda>(d, c, mt). c) adds \<and>
     map mat (mesh_indices m') = map mat (mesh_indices m) @ map (\<lambda>(d, c, mt). mt) adds \<and>
     (\<exists>cs. calls g' = calls g @ cs \<and>
        generated_buffers cs = [Suc (names_issued g)..<Suc (names_issued g) + length adds])"
proof (induction adds arbitrary: m g)
  case Nil
  then show ?case by simp
next
  case (Cons a adds)
  obtain d c mt where a: "a = (d, c, mt)" by (cases a)
  let ?m1 = "m\<lparr>mesh_indices := mesh_indices m @ [\<lparr>count = c, ibo = Suc (names_issued g), mat = mt\<rparr>]\<rparr>"
  let ?g1 = "g\<lparr>calls := calls g @ [GenBuffers (Suc (names_issued g)),
                             BindBuffer GL_ELEMENT_ARRAY_BUFFER (Suc (names_issued g)),
                             BufferData GL_ELEMENT_ARRAY_BUFFER (int_to_size (word_of_int c) * sizeof_int) d GL_STATIC_DRAW],
        names_issued := Suc (names_issued g)\<rparr>"
  from Cons.prems a have step: "AddIndices_each adds ?m1 ?g1 = (m', g')"
    by (simp add: AddIndices_effect)
  have upt: "[Suc (names_issued g)..<Suc (names_issued g) + length (a # adds)] =
      Suc (names_issued g) # [Suc (Suc (names_issued g))..<Suc (Suc (names_issued g)) + length adds]"
    by (simp add: upt_conv_Cons del: upt_Suc)
  from Cons.IH [OF step] show ?case
    unfolding upt by (auto simp add: a simp del: upt_Suc)
qed

text \<open>The byte count of the vertex upload wraps at 32 bits before it is widened.\<close>

lemma int_mul_wraps: "int_to_size (int_mul 100000 100000) = (1410065408 :: 64 word)"
  by (simp add: int_mul_def int_to_size_def)

lemma deleted_buffers_ibo [simp]:
  "deleted_buffers (map (\<lambda>r. DeleteBuffers (ibo r)) rs) = map ibo rs"
  by (induction rs) simp_all

lemma count_list_distinct: "distinct xs \<Longrightarrow> x \<in> set xs \<Longrightarrow> count_list xs x = 1"
  by (induction xs) auto

text \<open>
  C9. For a mesh made by the constructor and any number of AddIndices calls (none
  included), the destructor issues one DeleteBuffers for the vertex buffer and one for
  each index buffer and nothing else; the names it deletes are exactly the names that
  were generated for this mesh, each of them once.
\<close>

theorem Mesh_dtor_deletes_each_buffer_once:
  assumes "Mesh_ctor vertex_data n vertex_size format g = (m0, g0)"
    and "AddIndices_each adds m0 g0 = (m, g1)"
  shows "issued_since g1 (Mesh_dtor m g1) =
           DeleteBuffers (mesh_vbo m) # map (\<lambda>r. DeleteBuffers (ibo r)) (mesh_indices m)
       \<and> length (mesh_indices m) = length adds
       \<and> deleted_buffers (issued_since g1 (Mesh_dtor m g1)) = generated_buffers (issued_since g g1)
       \<and> distinct (deleted_buffers (issued_since g1 (Mesh_dtor m g1)))
       \<and> (\<forall>b \<in> set (generated_buffers (issued_since g g1)).
             count_list (deleted_buffers (issued_since g1 (Mesh_dtor m g1))) b = 1)
       \<and> (adds = [] \<longrightarrow> issued_since g1 (Mesh_dtor m g1) = [DeleteBuffers (mesh_vbo m)])"
proof -
  let ?v = "Suc (names_issued g)"
  from assms(1) have m0: "mesh_vbo m0 = ?v" "mesh_indices m0 = []"
    and g0: "names_issued g0 = ?v"
      "calls g0 = calls g @ [GenBuffers ?v, BindBuffer GL_ARRAY_BUFFER ?v,
         BufferData GL_ARRAY_BUFFER (int_to_size (int_mul n vertex_size)) vertex_data GL_STATIC_DRAW]"
    by (auto simp add: Mesh_ctor_effect)
  from AddIndices_each_effect [OF assms(2)] m0 g0 obtain cs where
    vbo: "mesh_vbo m = ?v" and
    ibos: "map ibo (mesh_indices m) = [Suc ?v..<Suc ?v + length adds]" and
    cs: "calls g1 = calls g0 @ cs" "generated_buffers cs = [Suc ?v..<Suc ?v + length adds]"
    by auto
  have dtor: "issued_since g1 (Mesh_dtor m g1) =
      DeleteBuffers (mesh_vbo m) # map (\<lambda>r. DeleteBuffers (ibo r)) (mesh_indices m)"
    by (simp add: Mesh_dtor_calls)
  have del: "deleted_buffers (issued_since g1 (Mesh_dtor m g1)) = ?v # [Suc ?v..<Suc ?v + length adds]"
    by (simp add: dtor vbo ibos del: upt_Suc)
  have gen: "generated_buffers (issued_since g g1) = ?v # [Suc ?v..<Suc ?v + length adds]"
    using cs g0 by (simp del: upt_Suc)
  have dist: "distinct (?v # [Suc ?v..<Suc ?v + length adds])"
    by (simp del: upt_Suc)
  have "length (map ibo (mesh_indices m)) = length [Suc ?v..<Suc ?v + length adds]"
    by (simp only: ibos)
  then have len: "length (mesh_indices m) = length adds"
    by (simp del: upt_Suc)
  have once: "\<forall>b \<in> set (generated_buffers (issued_since g g1)).
             count_list (deleted_buffers (issued_since g1 (Mesh_dtor m g1))) b = 1"
    unfolding del gen using dist by (blast intro: count_list_distinct)
  have none: "adds = [] \<longrightarrow> issued_since g1 (Mesh_dtor m g1) = [DeleteBuffers (mesh_vbo m)]"
    using len dtor by auto
  show ?thesis
    using dtor len once none unfolding del gen using dist by blast
qed

text \<open>
  C3. Render on a mesh with an End-terminated format issues the attribute bind once,
  then for every IndexRange in list order the material activation, the bind of that
  range's index buffer and a triangle-list draw of its count, then the attribute unbind
  once. The draws among the issued commands are exactly one per range, in list order,
  and the list order is the order of the AddIndices calls, since AddIndices appends.
\<close>

theorem Render_draws_each_range_in_order:
  assumes "mesh_format m = fs @ kEND # rest" and "kEND \<notin> set fs"
  shows "(\<exists>g'. Render m g = Some g'
           \<and> issued_since g g' =
               (BindBuffer GL_ARRAY_BUFFER (mesh_vbo m) # spec_Bind_calls (mesh_vertex_size m) 0 fs)
               @ concat (map spec_range_calls (mesh_indices m))
               @ spec_Unbind_calls fs
           \<and> filter is_draw (issued_since g g') =
               map (\<lambda>r. DrawElements GL_TRIANGLES (count r) GL_UNSIGNED_INT 0) (mesh_indices m)
           \<and> length (filter is_draw (issued_since g g')) = length (mesh_indices m))
       \<and> mesh_indices (fst (AddIndices index_data cnt material m g)) =
             mesh_indices m @ [\<lparr>count = cnt, ibo = fresh_name g, mat = material\<rparr>]"
proof -
  let ?cs = "(BindBuffer GL_ARRAY_BUFFER (mesh_vbo m) # spec_Bind_calls (mesh_vertex_size m) 0 fs)
               @ concat (map spec_range_calls (mesh_indices m)) @ spec_Unbind_calls fs"
  let ?g' = "g\<lparr>calls := calls g @ ?cs,
               attrib_enabled := attrib_enabled g \<union> spec_slot ` set fs - spec_slot ` set fs\<rparr>"
  have r: "Render m g = Some ?g'"
    using assms by (rule Render_calls)
  have i: "issued_since g ?g' = ?cs"
    by (rule issued_since_append) simp
  have d: "filter is_draw ?cs =
      map (\<lambda>r. DrawElements GL_TRIANGLES (count r) GL_UNSIGNED_INT 0) (mesh_indices m)"
    by simp
  have a: "mesh_indices (fst (AddIndices index_data cnt material m g)) =
             mesh_indices m @ [\<lparr>count = cnt, ibo = fresh_name g, mat = material\<rparr>]"
    by (simp add: AddIndices_effect fresh_name_def)
  show ?thesis
    using r i d a by simp
qed

theorem Render_draws_each_range_in_order_witness:
  "mesh_format two_range_mesh = [kPosition3f, kTexCoord2f] @ kEND # []
   \<and> kEND \<notin> set [kPosition3f, kTexCoord2f]
   \<and> map_option calls (Render two_range_mesh (gl_initial accepting_driver :: 32 word gl_state)) =
       Some [BindBuffer GL_ARRAY_BUFFER 1,
             EnableVertexAttribArray 0, VertexAttribPointer 0 3 GL_FLOAT False 20 0,
             EnableVertexAttribArray 2, VertexAttribPointer 2 2 GL_FLOAT False 20 12,
             MaterialSet 100, BindBuffer GL_ELEMENT_ARRAY_BUFFER 2,
             DrawElements GL_TRIANGLES 6 GL_UNSIGNED_INT 0,
             MaterialSet 200, BindBuffer GL_ELEMENT_ARRAY_BUFFER 3,
             DrawElements GL_TRIANGLES 3 GL_UNSIGNED_INT 0,
             DisableVertexAttribArray 0, DisableVertexAttribArray 2]"
  using Render_draws_each_range_in_order
    [of two_range_mesh "[kPosition3f, kTexCoord2f]" "[]"
        "gl_initial accepting_driver :: 32 word gl_state" 0 0 0]
  by (auto simp add: two_range_mesh_def issued_since_def gl_initial_def spec_Bind_calls_def
        spec_field_calls_def spec_offset_def spec_range_calls_def spec_Unbind_calls_def slot_defs)

theorem Mesh_dtor_deletes_each_buffer_once_witness:
  "Mesh_ctor (0 :: 32 word) 4 20 [kPosition3f, kTexCoord2f, kEND] (gl_initial accepting_driver) =
     (\<lparr>mesh_vbo = 1, mesh_vertex_size = 20, mesh_format = [kPosition3f, kTexCoord2f, kEND],
       mesh_indices = []\<rparr>,
      (gl_initial accepting_driver)
        \<lparr>calls := [GenBuffers 1, BindBuffer GL_ARRAY_BUFFER 1,
                    BufferData GL_ARRAY_BUFFER 80 0 GL_STATIC_DRAW],
         names_issued := 1\<rparr>)
   \<and> deleted_buffers
        (calls (Mesh_dtor
          (fst (AddIndices_each [(100 :: 32 word, 6, 7), (200, 3, 8)]
             (fst (Mesh_ctor (0 :: 32 word) 4 20 [kPosition3f, kTexCoord2f, kEND]
                     (gl_initial accepting_driver)))
             (snd (Mesh_ctor (0 :: 32 word) 4 20 [kPosition3f, kTexCoord2f, kEND]
                     (gl_initial accepting_driver)))))
          (gl_initial accepting_driver :: 32 word gl_state))) = [1, 2, 3]"
  using Mesh_dtor_deletes_each_buffer_once
    [of "0 :: 32 word" 4 20 "[kPosition3f, kTexCoord2f, kEND]" "gl_initial accepting_driver"
        "fst (Mesh_ctor (0 :: 32 word) 4 20 [kPosition3f, kTexCoord2f, kEND] (gl_initial accepting_driver))"
        "snd (Mesh_ctor (0 :: 32 word) 4 20 [kPosition3f, kTexCoord2f, kEND] (gl_initial accepting_driver))"
        "[(100 :: 32 word, 6, 7), (200, 3, 8)]"
        "fst (AddIndices_each [(100 :: 32 word, 6, 7), (200, 3, 8)]
             (fst (Mesh_ctor (0 :: 32 word) 4 20 [kPosition3f, kTexCoord2f, kEND]
                     (gl_initial accepting_driver)))
             (snd (Mesh_ctor (0 :: 32 word) 4 20 [kPosition3f, kTexCoord2f, kEND]
                     (gl_initial accepting_driver))))"
        "snd (AddIndices_each [(100 :: 32 word, 6, 7), (200, 3, 8)]
             (fst (Mesh_ctor (0 :: 32 word) 4 20 [kPosition3f, kTexCoord2f, kEND]
                     (gl_initial accepting_driver)))
             (snd (Mesh_ctor (0 :: 32 word) 4 20 [kPosition3f, kTexCoord2f, kEND]
                     (gl_initial accepting_driver))))"]
  by (simp add: Mesh_ctor_effect AddIndices_effect Mesh_dtor_calls gl_initial_def
        int_mul_def int_to_size_def)

subsection \<open>Shader compilation and linking\<close>

lemma write_info_log_whole:
  "write_info_log info (info_log_length info) (replicate (info_log_length info) NUL) = log_text info"
  by (cases info) (simp_all add: write_info_log_def info_log_length_def log_text_def)

lemmas gl_shader_defs =
  glCreateShader_def glShaderSource_def glCompileShader_def glGetShaderiv_COMPILE_STATUS_def
  glGetShaderiv_INFO_LOG_LENGTH_def glGetShaderInfoLog_def glAttachShader_def glDeleteShader_def
  glCreateProgram_def glBindAttribLocation_def program_sources_def glLinkProgram_def
  glGetProgramiv_LINK_STATUS_def glGetProgramiv_INFO_LOG_LENGTH_def glGetProgramInfoLog_def
  glUseProgram_def glDeleteProgram_def glGetUniformLocation_def glUniform1i_def
  issue_def fresh_name_def take_name_def

lemma CompileShader_fails:
  assumes "\<not> compiles (gl_driver g) stage (preamble pf @ source)"
  shows "CompileShader pf stage program source r g =
     (0, r\<lparr>last_error := log_text (compile_log (gl_driver g) stage (preamble pf @ source))\<rparr>,
      g\<lparr>calls := calls g @ [CreateShader stage (Suc (names_issued g)),
                             ShaderSource (Suc (names_issued g)) (preamble pf @ source),
                             CompileShader_call (Suc (names_issued g)),
                             DeleteShader (Suc (names_issued g))],
        names_issued := Suc (names_issued g),
        shader_type := (shader_type g)(Suc (names_issued g) := stage),
        shader_source := (shader_source g)(Suc (names_issued g) := preamble pf @ source),
        compile_status := (compile_status g)(Suc (names_issued g) := False),
        shader_info_log := (shader_info_log g)
          (Suc (names_issued g) := compile_log (gl_driver g) stage (preamble pf @ source))\<rparr>)"
  using assms
  by (simp add: CompileShader_def gl_shader_defs Let_def write_info_log_whole)

lemma CompileShader_succeeds:
  assumes "compiles (gl_driver g) stage (preamble pf @ source)"
  shows "CompileShader pf stage program source r g =
     (Suc (names_issued g), r,
      g\<lparr>calls := calls g @ [CreateShader stage (Suc (names_issued g)),
                             ShaderSource (Suc (names_issued g)) (preamble pf @ source),
                             CompileShader_call (Suc (names_issued g)),
                             AttachShader program (Suc (names_issued g))],
        names_issued := Suc (names_issued g),
        shader_type := (shader_type g)(Suc (names_issued g) := stage),
        shader_source := (shader_source g)(Suc (names_issued g) := preamble pf @ source),
        compile_status := (compile_status g)(Suc (names_issued g) := True),
        shader_info_log := (shader_info_log g)
          (Suc (names_issued g) := compile_log (gl_driver g) stage (preamble pf @ source)),
        attached_shaders := (attached_shaders g)(program := attached_shaders g program @ [Suc (names_issued g)])\<rparr>)"
  using assms
  by (simp add: CompileShader_def gl_shader_defs Let_def)


lemma log_text_empty: "log_text info \<noteq> [] \<longleftrightarrow> info \<noteq> None"
  by (cases info) (simp_all add: log_text_def)

lemma CompileAndLinkShader_vertex_fails:
  assumes "\<not> compiles (gl_driver g) GL_VERTEX_SHADER (preamble pf @ vs_source)"
  shows "\<exists>g'. CompileAndLinkShader pf vs_source ps_source r g =
           (None, r\<lparr>last_error := log_text (compile_log (gl_driver g) GL_VERTEX_SHADER (preamble pf @ vs_source))\<rparr>, g')
         \<and> calls g' = calls g @
             [CreateProgram (Suc (names_issued g)),
              CreateShader GL_VERTEX_SHADER (Suc (Suc (names_issued g))),
              ShaderSource (Suc (Suc (names_issued g))) (preamble pf @ vs_source),
              CompileShader_call (Suc (Suc (names_issued g))),
              DeleteShader (Suc (Suc (names_issued g))),
              DeleteProgram (Suc (names_issued g))]"
  using assms
  by (simp add: CompileAndLinkShader_def glCreateProgram_def glDeleteProgram_def issue_def
        fresh_name_def take_name_def CompileShader_fails Let_def)

lemma CompileAndLinkShader_fragment_fails:
  assumes "compiles (gl_driver g) GL_VERTEX_SHADER (preamble pf @ vs_source)"
    and "\<not> compiles (gl_driver g) GL_FRAGMENT_SHADER (preamble pf @ ps_source)"
  shows "\<exists>g'. CompileAndLinkShader pf vs_source ps_source r g =
           (None, r\<lparr>last_error := log_text (compile_log (gl_driver g) GL_FRAGMENT_SHADER (preamble pf @ ps_source))\<rparr>, g')
         \<and> calls g' = calls g @
             [CreateProgram (Suc (names_issued g)),
              CreateShader GL_VERTEX_SHADER (Suc (Suc (names_issued g))),
              ShaderSource (Suc (Suc (names_issued g))) (preamble pf @ vs_source),
              CompileShader_call (Suc (Suc (names_issued g))),
              AttachShader (Suc (names_issued g)) (Suc (Suc (names_issued g))),
              CreateShader GL_FRAGMENT_SHADER (Suc (Suc (Suc (names_issued g)))),
              ShaderSource (Suc (Suc (Suc (names_issued g)))) (preamble pf @ ps_source),
              CompileShader_call (Suc (Suc (Suc (names_issued g)))),
              DeleteShader (Suc (Suc (Suc (names_issued g)))),
              DeleteShader (Suc (Suc (names_issued g))),
              DeleteProgram (Suc (names_issued g))]"
  using assms
  by (simp add: CompileAndLinkShader_def glCreateProgram_def glDeleteProgram_def glDeleteShader_def
        issue_def fresh_name_def take_name_def CompileShader_fails CompileShader_succeeds Let_def)

lemma CompileAndLinkShader_link_fails:
  assumes "compiles (gl_driver g) GL_VERTEX_SHADER (preamble pf @ vs_source)"
    and "compiles (gl_driver g) GL_FRAGMENT_SHADER (preamble pf @ ps_source)"
    and "\<not> links (gl_driver g) (attempt_sources pf vs_source ps_source)"
  shows "\<exists>g'. CompileAndLinkShader pf vs_source ps_source r g =
           (None, r\<lparr>last_error := log_text (link_log (gl_driver g) (attempt_sources pf vs_source ps_source))\<rparr>, g')
         \<and> calls g' = calls g @
             [CreateProgram (Suc (names_issued g)),
              CreateShader GL_VERTEX_SHADER (Suc (Suc (names_issued g))),
              ShaderSource (Suc (Suc (names_issued g))) (preamble pf @ vs_source),
              CompileShader_call (Suc (Suc (names_issued g))),
              AttachShader (Suc (names_issued g)) (Suc (Suc (names_issued g))),
              CreateShader GL_FRAGMENT_SHADER (Suc (Suc (Suc (names_issued g)))),
              ShaderSource (Suc (Suc (Suc (names_issued g)))) (preamble pf @ ps_source),
              CompileShader_call (Suc (Suc (Suc (names_issued g)))),
              AttachShader (Suc (names_issued g)) (Suc (Suc (Suc (names_issued g)))),
              BindAttribLocation (Suc (names_issued g)) 0 ''aPosition'',
              BindAttribLocation (Suc (names_issued g)) 1 ''aNormal'',
              BindAttribLocation (Suc (names_issued g)) 2 ''aTexCoord'',
              BindAttribLocation (Suc (names_issued g)) 3 ''aColor'',
              LinkProgram (Suc (names_issued g)),
              DeleteShader (Suc (Suc (Suc (names_issued g)))),
              DeleteShader (Suc (Suc (names_issued g))),
              DeleteProgram (Suc (names_issued g))]"
  using assms
  by (simp add: CompileAndLinkShader_def gl_shader_defs attempt_sources_def
        CompileShader_succeeds Let_def write_info_log_whole
        kAttributePosition_def kAttributeNormal_def kAttributeTexCoord_def kAttributeColor_def)


text \<open>
  C4, as the code has it. When the vertex stage, the fragment stage or the link fails,
  CompileAndLinkShader returns the null result and issues exactly the commands listed
  for that case: the program is created first and deleted last with \<open>DeleteProgram\<close>, a
  stage that compiled is attached and later deleted with \<open>DeleteShader\<close>, and the failed
  stage is deleted with \<open>DeleteShader\<close> right after its compilation. Every object
  created in the attempt is thus deleted, each once, in the reverse order of creation. The shared diagnostic string becomes the information log the
  GL holds for the failed step, followed by its terminator; it is non-empty exactly when
  the GL holds an information log for that step.
\<close>

theorem CompileAndLinkShader_releases_all_on_failure:
  assumes "\<not> attempt_succeeds (gl_driver g) pf vs_source ps_source"
  shows "\<exists>r' g'. CompileAndLinkShader pf vs_source ps_source r g = (None, r', g')
       \<and> last_error r' = log_text (failure_log (gl_driver g) pf vs_source ps_source)
       \<and> (last_error r' \<noteq> [] \<longleftrightarrow> failure_log (gl_driver g) pf vs_source ps_source \<noteq> None)
       \<and> issued_since g g' =
           (if \<not> compiles (gl_driver g) GL_VERTEX_SHADER (preamble pf @ vs_source) then
              [CreateProgram (fresh_name g),
               CreateShader GL_VERTEX_SHADER (Suc (fresh_name g)),
               ShaderSource (Suc (fresh_name g)) (preamble pf @ vs_source),
               CompileShader_call (Suc (fresh_name g)),
               DeleteShader (Suc (fresh_name g)),
               DeleteProgram (fresh_name g)]
            else if \<not> compiles (gl_driver g) GL_FRAGMENT_SHADER (preamble pf @ ps_source) then
              [CreateProgram (fresh_name g),
               CreateShader GL_VERTEX_SHADER (Suc (fresh_name g)),
               ShaderSource (Suc (fresh_name g)) (preamble pf @ vs_source),
               CompileShader_call (Suc (fresh_name g)),
               AttachShader (fresh_name g) (Suc (fresh_name g)),
               CreateShader GL_FRAGMENT_SHADER (Suc (Suc (fresh_name g))),
               ShaderSource (Suc (Suc (fresh_name g))) (preamble pf @ ps_source),
               CompileShader_call (Suc (Suc (fresh_name g))),
               DeleteShader (Suc (Suc (fresh_name g))),
               DeleteShader (Suc (fresh_name g)),
               DeleteProgram (fresh_name g)]
            else
              [CreateProgram (fresh_name g),
               CreateShader GL_VERTEX_SHADER (Suc (fresh_name g)),
               ShaderSource (Suc (fresh_name g)) (preamble pf @ vs_source),
               CompileShader_call (Suc (fresh_name g)),
               AttachShader (fresh_name g) (Suc (fresh_name g)),
               CreateShader GL_FRAGMENT_SHADER (Suc (Suc (fresh_name g))),
               ShaderSource (Suc (Suc (fresh_name g))) (preamble pf @ ps_source),
               CompileShader_call (Suc (Suc (fresh_name g))),
               AttachShader (fresh_name g) (Suc (Suc (fresh_name g))),
               BindAttribLocation (fresh_name g) kAttributePosition ''aPosition'',
               BindAttribLocation (fresh_name g) kAttributeNormal ''aNormal'',
               BindAttribLocation (fresh_name g) kAttributeTexCoord ''aTexCoord'',
               BindAttribLocation (fresh_name g) kAttributeColor ''aColor'',
               LinkProgram (fresh_name g),
               DeleteShader (Suc (Suc (fresh_name g))),
               DeleteShader (Suc (fresh_name g)),
               DeleteProgram (fresh_name g)])
       \<and> distinct (created_objects (issued_since g g'))
       \<and> deleted_objects (issued_since g g') = rev (created_objects (issued_since g g'))
       \<and> alive_objects (issued_since g g') = []"
proof -
  let ?d = "gl_driver g"
  consider
    (vertex) "\<not> compiles ?d GL_VERTEX_SHADER (preamble pf @ vs_source)"
  | (fragment) "compiles ?d GL_VERTEX_SHADER (preamble pf @ vs_source)"
      "\<not> compiles ?d GL_FRAGMENT_SHADER (preamble pf @ ps_source)"
  | (link) "compiles ?d GL_VERTEX_SHADER (preamble pf @ vs_source)"
      "compiles ?d GL_FRAGMENT_SHADER (preamble pf @ ps_source)"
      "\<not> links ?d (attempt_sources pf vs_source ps_source)"
    using assms by (auto simp add: attempt_succeeds_def)
  then show ?thesis
  proof cases
    case vertex
    from CompileAndLinkShader_vertex_fails [OF vertex, of ps_source r] obtain g' where
      "CompileAndLinkShader pf vs_source ps_source r g =
         (None, r\<lparr>last_error := log_text (compile_log ?d GL_VERTEX_SHADER (preamble pf @ vs_source))\<rparr>, g')"
      and "issued_since g g' =
             [CreateProgram (Suc (names_issued g)),
              CreateShader GL_VERTEX_SHADER (Suc (Suc (names_issued g))),
              ShaderSource (Suc (Suc (names_issued g))) (preamble pf @ vs_source),
              CompileShader_call (Suc (Suc (names_issued g))),
              DeleteShader (Suc (Suc (names_issued g))),
              DeleteProgram (Suc (names_issued g))]"
      by (auto simp add: issued_since_def)
    with vertex show ?thesis
      by (simp add: failure_log_def log_text_empty alive_objects_def fresh_name_def slot_defs)
  next
    case fragment
    from CompileAndLinkShader_fragment_fails [OF fragment, of r] obtain g' where
      "CompileAndLinkShader pf vs_source ps_source r g =
         (None, r\<lparr>last_error := log_text (compile_log ?d GL_FRAGMENT_SHADER (preamble pf @ ps_source))\<rparr>, g')"
      and "issued_since g g' =
             [CreateProgram (Suc (names_issued g)),
              CreateShader GL_VERTEX_SHADER (Suc (Suc (names_issued g))),
              ShaderSource (Suc (Suc (names_issued g))) (preamble pf @ vs_source),
              CompileShader_call (Suc (Suc (names_issued g))),
              AttachShader (Suc (names_issued g)) (Suc (Suc (names_issued g))),
              CreateShader GL_FRAGMENT_SHADER (Suc (Suc (Suc (names_issued g)))),
              ShaderSource (Suc (Suc (Suc (names_issued g)))) (preamble pf @ ps_source),
              CompileShader_call (Suc (Suc (Suc (names_issued g)))),
              DeleteShader (Suc (Suc (Suc (names_issued g)))),
              DeleteShader (Suc (Suc (names_issued g))),
              DeleteProgram (Suc (names_issued g))]"
      by (auto simp add: issued_since_def)
    with fragment show ?thesis
      by (simp add: failure_log_def log_text_empty alive_objects_def fresh_name_def slot_defs)
  next
    case link
    from CompileAndLinkShader_link_fails [OF link, of r] obtain g' where
      "CompileAndLinkShader pf vs_source ps_source r g =
         (None, r\<lparr>last_error := log_text (link_log ?d (attempt_sources pf vs_source ps_source))\<rparr>, g')"
      and "issued_since g g' =
             [CreateProgram (Suc (names_issued g)),
              CreateShader GL_VERTEX_SHADER (Suc (Suc (names_issued g))),
              ShaderSource (Suc (Suc (names_issued g))) (preamble pf @ vs_source),
              CompileShader_call (Suc (Suc (names_issued g))),
              AttachShader (Suc (names_issued g)) (Suc (Suc (names_issued g))),
              CreateShader GL_FRAGMENT_SHADER (Suc (Suc (Suc (names_issued g)))),
              ShaderSource (Suc (Suc (Suc (names_issued g)))) (preamble pf @ ps_source),
              CompileShader_call (Suc (Suc (Suc (names_issued g)))),
              AttachShader (Suc (names_issued g)) (Suc (Suc (Suc (names_issued g)))),
              BindAttribLocation (Suc (names_issued g)) 0 ''aPosition'',
              BindAttribLocation (Suc (names_issued g)) 1 ''aNormal'',
              BindAttribLocation (Suc (names_issued g)) 2 ''aTexCoord'',
              BindAttribLocation (Suc (names_issued g)) 3 ''aColor'',
              LinkProgram (Suc (names_issued g)),
              DeleteShader (Suc (Suc (Suc (names_issued g)))),
              DeleteShader (Suc (Suc (names_issued g))),
              DeleteProgram (Suc (names_issued g))]"
      by (auto simp add: issued_since_def)
    with link show ?thesis
      by (simp add: failure_log_def log_text_empty alive_objects_def fresh_name_def slot_defs)
  qed
qed

theorem CompileAndLinkShader_releases_all_on_failure_witness:
  "\<not> attempt_succeeds (gl_driver (gl_initial rejecting_driver :: 32 word gl_state))
       PLATFORM_DESKTOP ''void main() {'' ''void main() {}''
   \<and> \<not> attempt_succeeds (gl_driver (gl_initial link_rejecting_driver :: 32 word gl_state))
       PLATFORM_MOBILE ''void main() {}'' ''void main() {}''
   \<and> (\<exists>r' g'. CompileAndLinkShader PLATFORM_DESKTOP ''void main() {'' ''void main() {}''
                  stale_renderer (gl_initial rejecting_driver :: 32 word gl_state) = (None, r', g')
          \<and> last_error r' = ''syntax error'' @ [NUL]
          \<and> calls g' =
              [CreateProgram 1, CreateShader GL_VERTEX_SHADER 2,
               ShaderSource 2 (preamble PLATFORM_DESKTOP @ ''void main() {''),
               CompileShader_call 2, DeleteShader 2, DeleteProgram 1]
          \<and> deleted_objects (calls g') = [2, 1])
   \<and> (\<exists>r' g'. CompileAndLinkShader PLATFORM_MOBILE ''void main() {}'' ''void main() {}''
                  stale_renderer (gl_initial link_rejecting_driver :: 32 word gl_state) = (None, r', g')
          \<and> last_error r' = ''link error'' @ [NUL]
          \<and> deleted_objects (calls g') = [3, 2, 1])"
  using CompileAndLinkShader_releases_all_on_failure
          [of "gl_initial rejecting_driver :: 32 word gl_state" PLATFORM_DESKTOP
              "''void main() {''" "''void main() {}''" stale_renderer]
        CompileAndLinkShader_releases_all_on_failure
          [of "gl_initial link_rejecting_driver :: 32 word gl_state" PLATFORM_MOBILE
              "''void main() {}''" "''void main() {}''" stale_renderer]
  by (simp add: CompileAndLinkShader_def CompileShader_def gl_shader_defs gl_initial_def
        rejecting_driver_def link_rejecting_driver_def attempt_succeeds_def Let_def
        write_info_log_def info_log_length_def stale_renderer_def
        kAttributePosition_def kAttributeNormal_def kAttributeTexCoord_def kAttributeColor_def)

text \<open>
  C4, as stated, asks for a non-empty diagnostic string after every failed vertex
  compilation. With a driver that rejects the shader and keeps no information log,
  \<^verbatim>\<open>GL_INFO_LOG_LENGTH\<close> is 0 and \<^verbatim>\<open>last_error_.assign(0, 0)\<close> leaves the string empty.
\<close>

theorem CompileAndLinkShader_diagnostic_empty_counterexample:
  "\<not> compiles silent_rejecting_driver GL_VERTEX_SHADER (preamble PLATFORM_DESKTOP @ ''void main() {'')
   \<and> fst (CompileAndLinkShader PLATFORM_DESKTOP ''void main() {'' ''void main() {}''
            stale_renderer (gl_initial silent_rejecting_driver :: 32 word gl_state)) = None
   \<and> last_error (fst (snd (CompileAndLinkShader PLATFORM_DESKTOP ''void main() {'' ''void main() {}''
            stale_renderer (gl_initial silent_rejecting_driver :: 32 word gl_state)))) = []"
  by (simp add: CompileAndLinkShader_def CompileShader_def gl_shader_defs gl_initial_def
        silent_rejecting_driver_def Let_def write_info_log_def info_log_length_def)

text \<open>
  C5, as the code has it. When the source fails to compile, CompileShader stores the
  information log in the shared diagnostic string, returns the null handle, never
  attaches the stage to the program, and deletes the stage object itself: nothing is left
  for the caller to delete.
\<close>

theorem CompileShader_deletes_failed_stage:
  assumes "\<not> compiles (gl_driver g) stage (preamble pf @ source)"
  shows "\<exists>r' g'. CompileShader pf stage program source r g = (0, r', g')
       \<and> last_error r' = log_text (compile_log (gl_driver g) stage (preamble pf @ source))
       \<and> issued_since g g' =
           [CreateShader stage (fresh_name g), ShaderSource (fresh_name g) (preamble pf @ source),
            CompileShader_call (fresh_name g), DeleteShader (fresh_name g)]
       \<and> attached_shaders g' = attached_shaders g
       \<and> attached_objects (issued_since g g') = []
       \<and> alive_objects (issued_since g g') = []"
  using assms
  by (simp add: CompileShader_fails issued_since_def fresh_name_def alive_objects_def)

theorem CompileShader_deletes_failed_stage_witness:
  "\<not> compiles (gl_driver (snd (glCreateProgram (gl_initial rejecting_driver :: 32 word gl_state))))
       GL_VERTEX_SHADER (preamble PLATFORM_DESKTOP @ ''void main() {'')
   \<and> (\<exists>r' g'. CompileShader PLATFORM_DESKTOP GL_VERTEX_SHADER 1 ''void main() {'' stale_renderer
                  (snd (glCreateProgram (gl_initial rejecting_driver :: 32 word gl_state))) = (0, r', g')
          \<and> last_error r' = ''syntax error'' @ [NUL]
          \<and> calls g' = [CreateProgram 1, CreateShader GL_VERTEX_SHADER 2,
                         ShaderSource 2 (''#version 120'' @ [newline] @ ''void main() {''),
                         CompileShader_call 2, DeleteShader 2])"
  using CompileShader_deletes_failed_stage
          [of "snd (glCreateProgram (gl_initial rejecting_driver :: 32 word gl_state))"
              GL_VERTEX_SHADER PLATFORM_DESKTOP "''void main() {''" 1 stale_renderer]
  by (simp add: CompileShader_def gl_shader_defs gl_initial_def rejecting_driver_def Let_def
        write_info_log_def info_log_length_def stale_renderer_def preamble_def)

text \<open>
  C5, as stated, has the failed stage alive after the call. Here the program is object 1
  and the failed vertex stage is object 2; after the call only object 1 is alive.
\<close>

theorem CompileShader_failed_stage_alive_counterexample:
  "\<not> compiles rejecting_driver GL_VERTEX_SHADER (preamble PLATFORM_DESKTOP @ ''void main() {'')
   \<and> fst (CompileShader PLATFORM_DESKTOP GL_VERTEX_SHADER 1 ''void main() {'' stale_renderer
            (snd (glCreateProgram (gl_initial rejecting_driver :: 32 word gl_state)))) = 0
   \<and> created_objects (calls (snd (snd
          (CompileShader PLATFORM_DESKTOP GL_VERTEX_SHADER 1 ''void main() {'' stale_renderer
            (snd (glCreateProgram (gl_initial rejecting_driver :: 32 word gl_state))))))) = [1, 2]
   \<and> alive_objects (calls (snd (snd
          (CompileShader PLATFORM_DESKTOP GL_VERTEX_SHADER 1 ''void main() {'' stale_renderer
            (snd (glCreateProgram (gl_initial rejecting_driver :: 32 word gl_state))))))) = [1]"
  by (simp add: CompileShader_def gl_shader_defs gl_initial_def rejecting_driver_def Let_def
        write_info_log_def info_log_length_def alive_objects_def)

subsection \<open>TGA decoding\<close>

lemma first_byte_LittleEndian: "hd (int_bytes LittleEndian 1) = 1"
  by (simp add: int_bytes_def)

lemma first_byte_BigEndian: "hd (int_bytes BigEndian 1) = 0"
  by (simp add: int_bytes_def)

lemma upt_16: "[0..<16] = [0, 1, 2, 3, 4, 5, 6, 7, 8, 9, 10, 11, 12, 13, 14, 15 :: nat]"
  by (simp add: upt_rec)

lemmas tga_eval =
  CreateTextureFromTGAMemory_def first_byte_LittleEndian TGA_header_def read_short_def
  INT_MAX_def row_loop.simps col_loop.simps convert_pixel_def read_byte_def store_byte_def
  Let_def upt_16

lemmas texture_defs =
  CreateTexture_def glGenTextures_def glActiveTexture_def glBindTexture_def
  glTexParameteri_def glTexImage2D_def glEnable_def glBlendFunc_def glDepthFunc_def
  glAlphaFunc_def glGenerateMipmap_def issue_def take_name_def fresh_name_def

lemma CreateTexture_uploads:
  "CreateTexture buffer sz g = (tex, g') \<Longrightarrow>
     tex = fresh_name g \<and> uploaded_images (issued_since g g') = [(fst sz, snd sz, buffer)]"
  by (auto simp add: texture_defs issued_since_def Let_def)

lemma decode_32_not_flipped:
  assumes "d AND 0x20 = 0"
  shows "CreateTextureFromTGAMemory LittleEndian fresh_storage
       [0, 0, 2, c0, c1, c2, c3, c4, x0, x1, y0, y1, 2, 0, 2, 0, 32, d,
        b0, g0, r0, a0, b1, g1, r1, a1, b2, g2, r2, a2, b3, g3, r3, a3] g =
     Some (CreateTexture [r0, g0, b0, a0, r1, g1, b1, a1, r2, g2, b2, a2, r3, g3, b3, a3] (2, 2) g)"
  using assms by (simp add: tga_eval)

lemma decode_24_not_flipped:
  assumes "d AND 0x20 = 0"
  shows "CreateTextureFromTGAMemory LittleEndian fresh_storage
       [0, 0, 2, c0, c1, c2, c3, c4, x0, x1, y0, y1, 2, 0, 2, 0, 24, d,
        b0, g0, r0, b1, g1, r1, b2, g2, r2, b3, g3, r3] g =
     Some (CreateTexture [r0, g0, b0, 255, r1, g1, b1, 255, r2, g2, b2, 255, r3, g3, b3, 255] (2, 2) g)"
  using assms by (simp add: tga_eval)

lemma decode_32_flipped:
  assumes "d AND 0x20 \<noteq> 0"
  shows "CreateTextureFromTGAMemory LittleEndian fresh_storage
       [0, 0, 2, c0, c1, c2, c3, c4, x0, x1, y0, y1, 2, 0, 2, 0, 32, d,
        b0, g0, r0, a0, b1, g1, r1, a1, b2, g2, r2, a2, b3, g3, r3, a3] g =
     Some (CreateTexture [r2, g2, b2, a2, r3, g3, b3, a3, r0, g0, b0, a0, r1, g1, b1, a1] (2, 2) g)"
  using assms by (simp add: tga_eval)

lemma flip_bit_set: "((d :: byte) OR 0x20) AND 0x20 \<noteq> 0"
  by simp

text \<open>
  C6. On a little-endian host, the 2 by 2, 32-bit buffer with the flip bit clear is
  accepted, and the one image handed to the GL is 2 by 2 with exactly these 16 bytes:
  the pixels in input order, each with its first and third byte exchanged and its
  alpha byte kept. For the 24-bit buffer the fourth byte of every pixel is 255.
\<close>

theorem decode_2x2_not_flipped:
  assumes "d AND 0x20 = 0"
  shows "(\<exists>tex g'. CreateTextureFromTGAMemory LittleEndian fresh_storage
              ([0, 0, 2, c0, c1, c2, c3, c4, x0, x1, y0, y1, 2, 0, 2, 0, 32, d] @
               [b0, g0, r0, a0, b1, g1, r1, a1, b2, g2, r2, a2, b3, g3, r3, a3]) g = Some (tex, g')
            \<and> tex \<noteq> 0
            \<and> uploaded_images (issued_since g g') =
                [(2, 2, [r0, g0, b0, a0, r1, g1, b1, a1, r2, g2, b2, a2, r3, g3, b3, a3])])
       \<and> (\<exists>tex g'. CreateTextureFromTGAMemory LittleEndian fresh_storage
              ([0, 0, 2, c0, c1, c2, c3, c4, x0, x1, y0, y1, 2, 0, 2, 0, 24, d] @
               [b0, g0, r0, b1, g1, r1, b2, g2, r2, b3, g3, r3]) g = Some (tex, g')
            \<and> tex \<noteq> 0
            \<and> uploaded_images (issued_since g g') =
                [(2, 2, [r0, g0, b0, 255, r1, g1, b1, 255, r2, g2, b2, 255, r3, g3, b3, 255])])"
proof -
  let ?A = "[r0, g0, b0, a0, r1, g1, b1, a1, r2, g2, b2, a2, r3, g3, b3, a3]"
  let ?B = "[r0, g0, b0, 255, r1, g1, b1, 255, r2, g2, b2, 255, r3, g3, b3, 255]"
  obtain t1 h1 where c1: "CreateTexture ?A (2, 2) g = (t1, h1)"
    by (cases "CreateTexture ?A (2, 2) g")
  obtain t2 h2 where c2: "CreateTexture ?B (2, 2) g = (t2, h2)"
    by (cases "CreateTexture ?B (2, 2) g")
  have e1: "CreateTextureFromTGAMemory LittleEndian fresh_storage
              ([0, 0, 2, c0, c1, c2, c3, c4, x0, x1, y0, y1, 2, 0, 2, 0, 32, d] @
               [b0, g0, r0, a0, b1, g1, r1, a1, b2, g2, r2, a2, b3, g3, r3, a3]) g = Some (t1, h1)"
    by (simp add: decode_32_not_flipped [OF assms] c1)
  have e2: "CreateTextureFromTGAMemory LittleEndian fresh_storage
              ([0, 0, 2, c0, c1, c2, c3, c4, x0, x1, y0, y1, 2, 0, 2, 0, 24, d] @
               [b0, g0, r0, b1, g1, r1, b2, g2, r2, b3, g3, r3]) g = Some (t2, h2)"
    by (simp add: decode_24_not_flipped [OF assms] c2)
  have u1: "t1 \<noteq> 0 \<and> uploaded_images (issued_since g h1) = [(2, 2, ?A)]"
    using CreateTexture_uploads [OF c1] by (simp add: fresh_name_def)
  have u2: "t2 \<noteq> 0 \<and> uploaded_images (issued_since g h2) = [(2, 2, ?B)]"
    using CreateTexture_uploads [OF c2] by (simp add: fresh_name_def)
  show ?thesis
    using e1 e2 u1 u2 by blast
qed

theorem decode_2x2_not_flipped_witness:
  "(0 :: byte) AND 0x20 = 0
   \<and> map_option (\<lambda>(tex, g'). (tex, uploaded_images (calls g')))
        (CreateTextureFromTGAMemory LittleEndian (\<lambda>_. 0)
           ([0, 0, 2, 0, 0, 0, 0, 0, 0, 0, 0, 0, 2, 0, 2, 0, 32, 0] @
            [10, 20, 30, 40, 11, 21, 31, 41, 12, 22, 32, 42, 13, 23, 33, 43])
           (gl_initial accepting_driver :: 32 word gl_state)) =
      Some (1, [(2, 2, [30, 20, 10, 40, 31, 21, 11, 41, 32, 22, 12, 42, 33, 23, 13, 43])])
   \<and> map_option (\<lambda>(tex, g'). (tex, uploaded_images (calls g')))
        (CreateTextureFromTGAMemory LittleEndian (\<lambda>_. 0)
           ([0, 0, 2, 0, 0, 0, 0, 0, 0, 0, 0, 0, 2, 0, 2, 0, 24, 0] @
            [10, 20, 30, 11, 21, 31, 12, 22, 32, 13, 23, 33])
           (gl_initial accepting_driver :: 32 word gl_state)) =
      Some (1, [(2, 2, [30, 20, 10, 255, 31, 21, 11, 255, 32, 22, 12, 255, 33, 23, 13, 255])])"
  using decode_2x2_not_flipped
    [of 0 "\<lambda>_. 0" 0 0 0 0 0 0 0 0 0 10 20 30 40 11 21 31 41 12 22 32 42 13 23 33 43
        "gl_initial accepting_driver :: 32 word gl_state"]
  by (simp add: tga_eval texture_defs gl_initial_def)

text \<open>
  C7. Setting the flip bit in the descriptor of that 32-bit buffer and exchanging its two
  rows of pixels gives the same result as the original buffer: the same return value and
  the same commands with the same 16 bytes, whatever the fresh output arrays held.
\<close>

theorem decode_2x2_flip_and_swap_rows:
  assumes "d AND 0x20 = 0"
  shows "CreateTextureFromTGAMemory LittleEndian fresh_storage'
           ([0, 0, 2, c0, c1, c2, c3, c4, x0, x1, y0, y1, 2, 0, 2, 0, 32, d OR 0x20] @
            [b2, g2, r2, a2, b3, g3, r3, a3] @ [b0, g0, r0, a0, b1, g1, r1, a1]) g =
         CreateTextureFromTGAMemory LittleEndian fresh_storage
           ([0, 0, 2, c0, c1, c2, c3, c4, x0, x1, y0, y1, 2, 0, 2, 0, 32, d] @
            [b0, g0, r0, a0, b1, g1, r1, a1] @ [b2, g2, r2, a2, b3, g3, r3, a3]) g
       \<and> CreateTextureFromTGAMemory LittleEndian fresh_storage
           ([0, 0, 2, c0, c1, c2, c3, c4, x0, x1, y0, y1, 2, 0, 2, 0, 32, d] @
            [b0, g0, r0, a0, b1, g1, r1, a1] @ [b2, g2, r2, a2, b3, g3, r3, a3]) g =
         Some (CreateTexture [r0, g0, b0, a0, r1, g1, b1, a1, r2, g2, b2, a2, r3, g3, b3, a3] (2, 2) g)"
  using decode_32_flipped [OF flip_bit_set, of fresh_storage' c0 c1 c2 c3 c4 x0 x1 y0 y1 d
          b2 g2 r2 a2 b3 g3 r3 a3 b0 g0 r0 a0 b1 g1 r1 a1 g]
        decode_32_not_flipped [OF assms, of fresh_storage c0 c1 c2 c3 c4 x0 x1 y0 y1
          b0 g0 r0 a0 b1 g1 r1 a1 b2 g2 r2 a2 b3 g3 r3 a3 g]
  by simp

theorem decode_2x2_flip_and_swap_rows_witness:
  "(0 :: byte) AND 0x20 = 0
   \<and> map_option (\<lambda>(tex, g'). (tex, uploaded_images (calls g')))
        (CreateTextureFromTGAMemory LittleEndian (\<lambda>_. 7)
           ([0, 0, 2, 0, 0, 0, 0, 0, 0, 0, 0, 0, 2, 0, 2, 0, 32, 0 OR 0x20] @
            [12, 22, 32, 42, 13, 23, 33, 43] @ [10, 20, 30, 40, 11, 21, 31, 41])
           (gl_initial accepting_driver :: 32 word gl_state)) =
      Some (1, [(2, 2, [30, 20, 10, 40, 31, 21, 11, 41, 32, 22, 12, 42, 33, 23, 13, 43])])"
  using decode_2x2_flip_and_swap_rows
    [of 0 "\<lambda>_. 7" 0 0 0 0 0 0 0 0 0 12 22 32 42 13 23 33 43 10 20 30 40 11 21 31 41
        "gl_initial accepting_driver :: 32 word gl_state" "\<lambda>_. 0"]
  by (simp add: tga_eval texture_defs gl_initial_def)

text \<open>
  C8. On a big-endian host, and on any host for a buffer whose header names a colour map,
  an image type other than 2 or a depth other than 24 and 32, the function returns 0 and
  the GL state is the one it was called in: no command was issued, so no texture was
  generated and no image was handed over.
\<close>

theorem rejected_buffers_create_nothing:
  assumes "host = BigEndian \<or>
           (\<exists>header. TGA_header host tga_buf = Some header \<and>
              (color_map_type header \<noteq> 0 \<or> image_type header \<noteq> 2 \<or> bpp header \<notin> {24, 32}))"
  shows "CreateTextureFromTGAMemory host fresh_storage tga_buf g = Some (0, g)"
proof (cases host)
  case BigEndian
  then show ?thesis
    by (simp add: CreateTextureFromTGAMemory_def first_byte_BigEndian)
next
  case LittleEndian
  with assms show ?thesis
    by (auto simp add: CreateTextureFromTGAMemory_def first_byte_LittleEndian)
qed

theorem rejected_buffers_create_nothing_witness:
  "CreateTextureFromTGAMemory BigEndian (\<lambda>_. 0)
      ([0, 0, 2, 0, 0, 0, 0, 0, 0, 0, 0, 0, 1, 0, 1, 0, 32, 0] @ [10, 20, 30, 40])
      (gl_initial accepting_driver :: 32 word gl_state) = Some (0, gl_initial accepting_driver)
   \<and> (\<exists>header. TGA_header LittleEndian
          ([0, 0, 2, 0, 0, 0, 0, 0, 0, 0, 0, 0, 1, 0, 1, 0, 16, 0] @ [10, 20]) = Some header
        \<and> bpp header \<notin> {24, 32})
   \<and> CreateTextureFromTGAMemory LittleEndian (\<lambda>_. 0)
      ([0, 0, 2, 0, 0, 0, 0, 0, 0, 0, 0, 0, 1, 0, 1, 0, 16, 0] @ [10, 20])
      (gl_initial accepting_driver :: 32 word gl_state) = Some (0, gl_initial accepting_driver)
   \<and> (\<exists>header. TGA_header LittleEndian
          ([0, 1, 1, 0, 0, 0, 0, 0, 0, 0, 0, 0, 1, 0, 1, 0, 24, 0] @ [10, 20, 30]) = Some header
        \<and> color_map_type header \<noteq> 0)
   \<and> CreateTextureFromTGAMemory LittleEndian (\<lambda>_. 0)
      ([0, 1, 1, 0, 0, 0, 0, 0, 0, 0, 0, 0, 1, 0, 1, 0, 24, 0] @ [10, 20, 30])
      (gl_initial accepting_driver :: 32 word gl_state) = Some (0, gl_initial accepting_driver)"
  using rejected_buffers_create_nothing
          [of BigEndian "[0, 0, 2, 0, 0, 0, 0, 0, 0, 0, 0, 0, 1, 0, 1, 0, 32, 0] @ [10, 20, 30, 40]"
              "\<lambda>_. 0" "gl_initial accepting_driver :: 32 word gl_state"]
        rejected_buffers_create_nothing
          [of LittleEndian "[0, 0, 2, 0, 0, 0, 0, 0, 0, 0, 0, 0, 1, 0, 1, 0, 16, 0] @ [10, 20]"
              "\<lambda>_. 0" "gl_initial accepting_driver :: 32 word gl_state"]
        rejected_buffers_create_nothing
          [of LittleEndian "[0, 1, 1, 0, 0, 0, 0, 0, 0, 0, 0, 0, 1, 0, 1, 0, 24, 0] @ [10, 20, 30]"
              "\<lambda>_. 0" "gl_initial accepting_driver :: 32 word gl_state"]
  by (simp add: TGA_header_def)

end
